theory Spec2Isabelle
  imports Main "HOL-Library.Sublist"
begin

section \<open>The behavioural-prompts manager (first-time tips)\<close>

text \<open>
  The class \<open>BehavioralPromptsManager\<close> keeps two pieces of state of its own: the
  preference observable \<open>_prefs\<close> and the array \<open>_queuedTips\<close>. Everything else it
  touches lives in modules that are imported: the popup (\<open>showBehavioralPrompt\<close>), the
  screen width (\<open>isNarrowScreen\<close>), the configuration (\<open>getGristConfig\<close>) and the
  enum \<open>BehavioralPrompt\<close> with its \<open>guard\<close>. They appear below as explicit inputs
  or as events.
\<close>

subsection \<open>Data\<close>

text \<open>
  \<open>BehavioralPrompt\<close> is a string enum; the stored preference may hold any strings,
  which is why the code filters them with \<open>BehavioralPrompt.guard\<close>. DOM elements,
  popup options and the caller's \<open>onDispose\<close> callback are opaque handles.
\<close>

type_synonym BehavioralPrompt = string
type_synonym Element = nat
type_synonym IPopupOptions = nat
type_synonym callback = nat

record AttachOptions =
  hideArrow :: "bool option"
  popupOptions :: "IPopupOptions option"
  onDispose :: "callback option"

record QueuedTip =
  prompt :: BehavioralPrompt
  refElement :: Element
  options :: AttachOptions

record BehavioralPromptPrefs =
  dontShowTips :: bool
  dismissedTips :: "BehavioralPrompt list"

text \<open>
  A popup created by \<open>showBehavioralPrompt(refElement, title(), content(), {onClose,
  hideArrow, popupOptions})\<close>. The closure \<open>onClose\<close> and the \<open>ctl.onDispose\<close>
  listener capture the tip, so the popup remembers it; \<open>disposed\<close> is what
  \<open>ctl.isDisposed()\<close> answers.
\<close>

record popup =
  tip :: QueuedTip
  arrowHidden :: bool
  popupOpts :: "IPopupOptions option"
  disposed :: bool

text \<open>
  The manager together with the part of the page it acts on. \<open>prefs\<close> and
  \<open>queuedTips\<close> are the fields \<open>_prefs\<close> and \<open>_queuedTips\<close>; \<open>popups\<close> lists every
  popup created so far, oldest first; \<open>called\<close> logs the callers' \<open>onDispose\<close>
  callbacks that ran. \<open>pushed\<close> is a history variable, not program state: every tip that
  \<open>_queuedTips.push\<close> has appended, in order.
\<close>

record manager =
  prefs :: BehavioralPromptPrefs
  queuedTips :: "QueuedTip list"
  popups :: "popup list"
  called :: "callback list"
  pushed :: "QueuedTip list"

text \<open>
  What \<open>_queueTip\<close> reads from its surroundings at the moment of the call:
  \<open>getGristConfig().survey\<close> (as a truth value) and \<open>isNarrowScreen()\<close>.
\<close>

record surroundings =
  survey :: bool
  narrowScreen :: bool

subsection \<open>JavaScript sets of strings\<close>

text \<open>
  A \<open>Set\<close> keeps its members in insertion order without repetition; \<open>[...set]\<close>
  lists them in that order.
\<close>

definition Set_add :: "'a list \<Rightarrow> 'a \<Rightarrow> 'a list" where
  "Set_add xs x = (if x \<in> set xs then xs else xs @ [x])"

definition new_Set :: "'a list \<Rightarrow> 'a list" where
  "new_Set xs = foldl Set_add [] xs"

definition Set_has :: "'a list \<Rightarrow> 'a \<Rightarrow> bool" where
  "Set_has xs x = (x \<in> set xs)"

subsection \<open>Operations\<close>

text \<open>The computed \<open>_dismissedTips\<close> and \<open>hasSeenTip\<close>.\<close>

definition dismissedTipsSet :: "(string \<Rightarrow> bool) \<Rightarrow> manager \<Rightarrow> BehavioralPrompt list" where
  "dismissedTipsSet guard m = new_Set (filter guard (dismissedTips (prefs m)))"

definition hasSeenTip :: "(string \<Rightarrow> bool) \<Rightarrow> manager \<Rightarrow> BehavioralPrompt \<Rightarrow> bool" where
  "hasSeenTip guard m p = Set_has (dismissedTipsSet guard m) p"

text \<open>\<open>_markAsSeen\<close>: the preference is rewritten with the set's members as a list.\<close>

definition markAsSeen :: "BehavioralPrompt \<Rightarrow> manager \<Rightarrow> manager" where
  "markAsSeen p m =
     (let newDismissedTips = Set_add (new_Set (dismissedTips (prefs m))) p
      in m\<lparr>prefs := (prefs m)\<lparr>dismissedTips := newDismissedTips\<rparr>\<rparr>)"

text \<open>\<open>_dontShowTips\<close>.\<close>

definition dontShowTips_op :: "manager \<Rightarrow> manager" where
  "dontShowTips_op m = m\<lparr>prefs := (prefs m)\<lparr>dontShowTips := True\<rparr>, queuedTips := []\<rparr>"

text \<open>
  \<open>_showTip\<close>: one call of \<open>showBehavioralPrompt\<close>, that is one new popup. The
  prompt has type \<open>BehavioralPrompt\<close>, for which the table \<open>GristBehavioralPrompts\<close>
  has a title and a content; they are page content and are not modelled. The listeners
  registered here are the events \<open>OnClose\<close>, \<open>CtlDispose\<close>, \<open>RefClick\<close> and
  \<open>RefDisposed\<close> below.
\<close>

definition showTip_op :: "Element \<Rightarrow> BehavioralPrompt \<Rightarrow> AttachOptions \<Rightarrow> manager \<Rightarrow> manager" where
  "showTip_op el p opts m =
     m\<lparr>popups := popups m @
        [\<lparr>tip = \<lparr>prompt = p, refElement = el, options = opts\<rparr>,
          arrowHidden = (case hideArrow opts of None \<Rightarrow> False | Some b \<Rightarrow> b),
          popupOpts = popupOptions opts,
          disposed = False\<rparr>]\<rparr>"

text \<open>\<open>_queueTip\<close>, with the four checks in the order of the source.\<close>

definition queueTip ::
  "(string \<Rightarrow> bool) \<Rightarrow> surroundings \<Rightarrow> Element \<Rightarrow> BehavioralPrompt \<Rightarrow> AttachOptions \<Rightarrow> manager \<Rightarrow> manager" where
  "queueTip guard env el p opts m =
     (if \<not> survey env \<or> narrowScreen env \<or> dontShowTips (prefs m) \<or> hasSeenTip guard m p
      then m
      else
        let t = \<lparr>prompt = p, refElement = el, options = opts\<rparr>;
            m1 = m\<lparr>queuedTips := queuedTips m @ [t], pushed := pushed m @ [t]\<rparr>
        in if length (queuedTips m1) > 1 then m1 else showTip_op el p opts m1)"

text \<open>The two public entry points; \<open>attachTip(prompt, options)\<close> returns a function of the element.\<close>

definition showTip ::
  "(string \<Rightarrow> bool) \<Rightarrow> surroundings \<Rightarrow> Element \<Rightarrow> BehavioralPrompt \<Rightarrow> AttachOptions \<Rightarrow> manager \<Rightarrow> manager" where
  "showTip guard env el p opts m = queueTip guard env el p opts m"

definition attachTip ::
  "(string \<Rightarrow> bool) \<Rightarrow> surroundings \<Rightarrow> BehavioralPrompt \<Rightarrow> AttachOptions \<Rightarrow> Element \<Rightarrow> manager \<Rightarrow> manager" where
  "attachTip guard env p opts el m = queueTip guard env el p opts m"

text \<open>\<open>_showNextQueuedTip\<close>; \<open>shift\<close> on an empty array does nothing.\<close>

definition showNextQueuedTip :: "manager \<Rightarrow> manager" where
  "showNextQueuedTip m =
     (let m1 = m\<lparr>queuedTips := tl (queuedTips m)\<rparr>
      in case queuedTips m1 of
           [] \<Rightarrow> m1
         | nextTip # _ \<Rightarrow> showTip_op (refElement nextTip) (prompt nextTip) (options nextTip) m1)"

text \<open>
  The callback given as \<open>onClose\<close> to popup \<open>k\<close>, run with the state of the
  "Don't show tips" checkbox.
\<close>

definition onClose_cb :: "nat \<Rightarrow> bool \<Rightarrow> manager \<Rightarrow> manager" where
  "onClose_cb k dontShow m =
     markAsSeen (prompt (tip (popups m ! k))) (if dontShow then dontShowTips_op m else m)"

text \<open>
  The listener given to \<open>ctl.onDispose\<close> of popup \<open>k\<close>: the caller's
  \<open>onDispose\<close>, if any, then \<open>_showNextQueuedTip\<close>. The caller's callback is logged and
  assumed not to call back into the manager.
\<close>

definition onDispose_cb :: "nat \<Rightarrow> manager \<Rightarrow> manager" where
  "onDispose_cb k m =
     showNextQueuedTip
       (case onDispose (options (tip (popups m ! k))) of
          None \<Rightarrow> m
        | Some c \<Rightarrow> m\<lparr>called := called m @ [c]\<rparr>)"

subsection \<open>Events\<close>

text \<open>
  Modelled from the spec: \<open>showBehavioralPrompt\<close> and the popup controller it returns are
  not in the sources. The spec calls the queue "gated by dismissal events": a popup that is
  open can report that the user closed it (\<open>onClose\<close>, with the checkbox) and can be
  disposed, which runs its \<open>onDispose\<close> listeners once; \<open>ctl.close()\<close> disposes it.
  The two are kept as separate events, so every order in which a popup may report them is
  covered. An event for a popup that does not exist or is disposed already does nothing.
\<close>

definition isOpen :: "manager \<Rightarrow> nat \<Rightarrow> bool" where
  "isOpen m k = (k < length (popups m) \<and> \<not> disposed (popups m ! k))"

definition ctl_dispose :: "nat \<Rightarrow> manager \<Rightarrow> manager" where
  "ctl_dispose k m =
     (if isOpen m k
      then onDispose_cb k (m\<lparr>popups := (popups m)[k := (popups m ! k)\<lparr>disposed := True\<rparr>]\<rparr>)
      else m)"

text \<open>The closure \<open>close\<close> of \<open>_showTip\<close>: \<open>if (!ctl.isDisposed()) { ctl.close(); }\<close>.\<close>

definition close_popup :: "nat \<Rightarrow> manager \<Rightarrow> manager" where
  "close_popup k m = (if k < length (popups m) \<and> \<not> disposed (popups m ! k) then ctl_dispose k m else m)"

datatype event =
    ShowTip surroundings Element BehavioralPrompt AttachOptions
  | AttachTip surroundings BehavioralPrompt AttachOptions Element
  | OnClose nat bool
  | CtlDispose nat
  | RefClick nat
  | RefDisposed nat

fun step :: "(string \<Rightarrow> bool) \<Rightarrow> event \<Rightarrow> manager \<Rightarrow> manager" where
  "step guard (ShowTip env el p opts) m = showTip guard env el p opts m"
| "step guard (AttachTip env p opts el) m = attachTip guard env p opts el m"
| "step guard (OnClose k dontShow) m = (if isOpen m k then onClose_cb k dontShow m else m)"
| "step guard (CtlDispose k) m = ctl_dispose k m"
| "step guard (RefClick k) m = close_popup k m"
| "step guard (RefDisposed k) m = close_popup k m"

fun run :: "(string \<Rightarrow> bool) \<Rightarrow> event list \<Rightarrow> manager \<Rightarrow> manager" where
  "run guard [] m = m"
| "run guard (e # es) m = run guard es (step guard e m)"

text \<open>A freshly constructed manager: the stored preference, an empty queue, no popup.\<close>

definition init :: "BehavioralPromptPrefs \<Rightarrow> manager" where
  "init p = \<lparr>prefs = p, queuedTips = [], popups = [], called = [], pushed = []\<rparr>"

subsection \<open>Derived notions used in the statements\<close>

text \<open>The popups that are on the screen: created and not yet disposed.\<close>

definition openPopups :: "manager \<Rightarrow> popup list" where
  "openPopups m = filter (\<lambda>q. \<not> disposed q) (popups m)"

text \<open>
  The relation between queue, popups and history that every step keeps: every popup but the
  newest is disposed; while the queue is non-empty its head is the tip of the newest popup,
  which is open, and the tips pushed so far are the tips shown followed by the rest of the
  queue; once the queue is empty either everything pushed was shown and is disposed, or
  \<open>_dontShowTips\<close> has dropped the waiting tips and switched tips off.
\<close>

definition queue_inv :: "manager \<Rightarrow> bool" where
  "queue_inv m =
     (list_all disposed (butlast (popups m))
      \<and> (queuedTips m \<noteq> [] \<longrightarrow>
            popups m \<noteq> [] \<and> \<not> disposed (last (popups m))
            \<and> tip (last (popups m)) = hd (queuedTips m)
            \<and> pushed m = map tip (popups m) @ tl (queuedTips m))
      \<and> (queuedTips m = [] \<longrightarrow>
            (dontShowTips (prefs m) \<and> prefix (map tip (popups m)) (pushed m))
            \<or> (pushed m = map tip (popups m) \<and> list_all disposed (popups m))))"

text \<open>The state after "Don't show tips": the preference is set and nothing waits.\<close>

definition silenced :: "manager \<Rightarrow> bool" where
  "silenced m = (dontShowTips (prefs m) \<and> queuedTips m = [])"

text \<open>Concrete inputs on which the model is evaluated.\<close>

definition okSurroundings :: surroundings where
  "okSurroundings = \<lparr>survey = True, narrowScreen = False\<rparr>"

definition noOptions :: AttachOptions where
  "noOptions = \<lparr>hideArrow = None, popupOptions = None, onDispose = None\<rparr>"

definition noPrefs :: BehavioralPromptPrefs where
  "noPrefs = \<lparr>dontShowTips = False, dismissedTips = []\<rparr>"

definition anyPrompt :: "string \<Rightarrow> bool" where
  "anyPrompt s = True"

text \<open>Three tips are asked for in a row; the first popup is then closed with "Got it".\<close>

definition threeTips :: "event list" where
  "threeTips =
     [ShowTip okSurroundings 0 ''a'' noOptions,
      AttachTip okSurroundings ''b'' noOptions 1,
      ShowTip okSurroundings 2 ''c'' noOptions,
      OnClose 0 False,
      CtlDispose 0]"

text \<open>The same tip is asked for on two elements before the first popup is closed.\<close>

definition sameTipTwice :: "event list" where
  "sameTipTwice =
     [ShowTip okSurroundings 0 ''a'' noOptions,
      ShowTip okSurroundings 1 ''a'' noOptions,
      OnClose 0 False]"

text \<open>The state after the three requests of \<open>threeTips\<close>: one popup open, two tips waiting.\<close>

definition twoWaiting :: manager where
  "twoWaiting = run anyPrompt (take 3 threeTips) (init noPrefs)"

section \<open>The REST client\<close>

text \<open>
  The classes \<open>UserAPIImpl\<close>, \<open>DocWorkerAPIImpl\<close> and \<open>DocAPIImpl\<close> build a URL and
  an options object and hand both to a method inherited from \<open>BaseAPI\<close>. The model keeps
  the log of these hand-overs: what a method "issues" is what it appends to the log.
\<close>

subsection \<open>Values\<close>

text \<open>
  TypeScript's types are erased when the program runs: the properties, deltas, actions and
  table values given to the methods are JavaScript values, kept here as trees. Numbers are
  the integers, which is what identifiers are. On such plain data \<open>JSON.stringify\<close> does
  not throw.
\<close>

datatype jsval =
    JUndefined
  | JNull
  | JBool bool
  | JNum int
  | JStr string
  | JArr "jsval list"
  | JObj "(string \<times> jsval) list"

datatype UploadType = UploadString string | UploadBlob nat | UploadBuffer nat

text \<open>\<open>formData.append(name, value, filename)\<close> and \<open>formData.append(name, value)\<close>.\<close>

datatype FormEntry = FileEntry string UploadType "string option" | FieldEntry string string

type_synonym FormData = "FormEntry list"

text \<open>
  The body of a request is either the string that \<open>JSON.stringify\<close> returns for a value,
  kept symbolic (the encoder is the platform's), or a form.
\<close>

datatype body = JSON_stringify jsval | FormDataBody FormData

type_synonym Headers = "(string \<times> string) list"

text \<open>
  \<open>IOptions\<close> is declared with \<open>BaseAPI\<close>, outside these sources. It is modelled with the
  two properties this file reads or writes; a \<open>Map\<close> is the list of its entries.
\<close>

record IOptions =
  headers :: "Headers option"
  extraParameters :: "(string \<times> string) list option"

record RequestInit =
  http_method :: "string option"
  body :: "body option"
  init_headers :: "Headers option"
  credentials :: "string option"

record AxiosRequestConfig =
  ax_headers :: "Headers option"
  ax_method :: "string option"
  ax_data :: "FormData option"
  onUploadProgress :: "callback option"

datatype error = Error string | TypeError string

record Response =
  ok :: bool
  body_text :: "error + string"
  payload :: jsval

text \<open>One hand-over to \<open>BaseAPI\<close>: which inherited method, the URL, the options.\<close>

datatype call =
    Request string RequestInit
  | RequestJson string RequestInit
  | Fetch string RequestInit
  | RequestAxios string AxiosRequestConfig

fun call_url :: "call \<Rightarrow> string" where
  "call_url (Request u ri) = u"
| "call_url (RequestJson u ri) = u"
| "call_url (Fetch u ri) = u"
| "call_url (RequestAxios u c) = u"

fun call_method :: "call \<Rightarrow> string option" where
  "call_method (Request u ri) = http_method ri"
| "call_method (RequestJson u ri) = http_method ri"
| "call_method (Fetch u ri) = http_method ri"
| "call_method (RequestAxios u c) = ax_method c"

fun call_body :: "call \<Rightarrow> body option" where
  "call_body (Request u ri) = body ri"
| "call_body (RequestJson u ri) = body ri"
| "call_body (Fetch u ri) = body ri"
| "call_body (RequestAxios u c) = map_option FormDataBody (ax_data c)"

text \<open>
  What the methods read from outside the class: \<open>isClient()\<close> and
  \<open>addCurrentOrgToPath\<close> (imported), the network, and the platform's \<open>URL\<close> class.
  \<open>transport\<close> answers a hand-over, given the log so far: it rejects or resolves with a
  response. \<open>URL_href\<close> is the \<open>href\<close> of \<open>new URL(s)\<close> after the given
  \<open>searchParams.append\<close> calls, or nothing when \<open>new URL(s)\<close> throws.
  \<open>formData_append\<close> is the \<open>append\<close> of the form that \<open>newFormData()\<close> gives: the
  error it throws for an entry, or nothing when it accepts the entry. (The browser's
  \<open>FormData\<close> throws a \<open>TypeError\<close> for a file entry whose value is not a
  \<open>Blob\<close>; the sources cast the material with \<open>as any\<close>, so the compiler does not
  exclude a string there.)
\<close>

record api_env =
  isClient :: bool
  addCurrentOrgToPath :: "string \<Rightarrow> string"
  transport :: "call list \<Rightarrow> call \<Rightarrow> error + Response"
  URL_href :: "string \<Rightarrow> (string \<times> string) list \<Rightarrow> string option"
  formData_append :: "FormEntry \<Rightarrow> error option"

type_synonym 'a io = "call list \<Rightarrow> (error + 'a) \<times> call list"

subsection \<open>The methods inherited from \<open>BaseAPI\<close>\<close>

text \<open>
  Modelled from the spec: \<open>BaseAPI\<close> (\<open>request\<close>, \<open>requestJson\<close>, \<open>fetch\<close>,
  \<open>requestAxios\<close>, \<open>newFormData\<close>) is not in the sources. The spec describes the
  client as "a direct one-to-one mapping from method calls to HTTP requests with JSON
  encoding/decoding", with no caching or retry, and failures as rejected operations: each
  call of an inherited method is one request, answered by the network; \<open>requestJson\<close>
  resolves with the decoded body.
\<close>

definition BaseAPI_request :: "api_env \<Rightarrow> string \<Rightarrow> RequestInit \<Rightarrow> Response io" where
  "BaseAPI_request env u ri w = (transport env w (Request u ri), w @ [Request u ri])"

definition BaseAPI_requestJson :: "api_env \<Rightarrow> string \<Rightarrow> RequestInit \<Rightarrow> jsval io" where
  "BaseAPI_requestJson env u ri w =
     (map_sum id payload (transport env w (RequestJson u ri)), w @ [RequestJson u ri])"

definition BaseAPI_fetch :: "api_env \<Rightarrow> string \<Rightarrow> RequestInit \<Rightarrow> Response io" where
  "BaseAPI_fetch env u ri w = (transport env w (Fetch u ri), w @ [Fetch u ri])"

definition BaseAPI_requestAxios :: "api_env \<Rightarrow> string \<Rightarrow> AxiosRequestConfig \<Rightarrow> Response io" where
  "BaseAPI_requestAxios env u c w = (transport env w (RequestAxios u c), w @ [RequestAxios u c])"

definition BaseAPI_newFormData :: FormData where
  "BaseAPI_newFormData = []"

text \<open>\<open>formData.append(...)\<close>: the entry joins the form, unless the platform throws.\<close>

definition FormData_append :: "api_env \<Rightarrow> FormData \<Rightarrow> FormEntry \<Rightarrow> error + FormData" where
  "FormData_append env formData entry =
     (case formData_append env entry of
        Some e \<Rightarrow> Inl e
      | None \<Rightarrow> Inr (formData @ [entry]))"

subsection \<open>Small pieces of JavaScript\<close>

text \<open>\<open>await e\<close> followed by more code: a rejection ends the method.\<close>

definition await :: "(error + 'a) \<times> call list \<Rightarrow> ('a \<Rightarrow> 'b io) \<Rightarrow> (error + 'b) \<times> call list" where
  "await r k = (case r of (Inl e, w) \<Rightarrow> (Inl e, w) | (Inr x, w) \<Rightarrow> k x w)"

definition resolve :: "'a \<Rightarrow> 'a io" where
  "resolve x w = (Inr x, w)"

definition reject :: "error \<Rightarrow> 'a io" where
  "reject e w = (Inl e, w)"

text \<open>A method of type \<open>Promise<void>\<close> that awaits a request and returns nothing.\<close>

definition void :: "(error + 'a) \<times> call list \<Rightarrow> (error + unit) \<times> call list" where
  "void r = await r (\<lambda>_. resolve ())"

text \<open>An options object with no property.\<close>

definition noInit :: RequestInit where
  "noInit = \<lparr>http_method = None, body = None, init_headers = None, credentials = None\<rparr>"

text \<open>\<open>base.replace(/\<bsol>/$/, '')\<close>: one slash at the very end is removed.\<close>

definition stripTrailingSlash :: "string \<Rightarrow> string" where
  "stripTrailingSlash s = (if s \<noteq> [] \<and> last s = CHR ''/'' then butlast s else s)"

text \<open>A number inside a template literal: the decimal numeral, for an integer identifier.\<close>

definition digit :: "nat \<Rightarrow> char" where
  "digit n = ''0123456789'' ! n"

function decimal :: "nat \<Rightarrow> string" where
  "decimal n = (if n < 10 then [digit n] else decimal (n div 10) @ [digit (n mod 10)])"
  by pat_completeness auto
termination
  by (relation "measure id") auto

definition Number_toString :: "int \<Rightarrow> string" where
  "Number_toString i = (if i < 0 then CHR ''-'' # decimal (nat (- i)) else decimal (nat i))"

text \<open>An \<open>orgId\<close> has type \<open>number|string\<close>.\<close>

datatype OrgId = OrgNumber int | OrgString string

fun orgIdText :: "OrgId \<Rightarrow> string" where
  "orgIdText (OrgNumber i) = Number_toString i"
| "orgIdText (OrgString s) = s"

fun orgIdValue :: "OrgId \<Rightarrow> jsval" where
  "orgIdValue (OrgNumber i) = JNum i"
| "orgIdValue (OrgString s) = JStr s"

text \<open>An optional string in a condition: \<open>undefined\<close> and the empty string count as false;
  the result is the string when the condition holds.\<close>

fun truthy :: "string option \<Rightarrow> string option" where
  "truthy None = None"
| "truthy (Some s) = (if s = [] then None else Some s)"

text \<open>
  Reading a property of a decoded answer (\<open>json.docWorkerUrl\<close>, \<open>json.uploadId\<close>):
  \<open>undefined\<close> when it is missing, a \<open>TypeError\<close> on \<open>null\<close> and \<open>undefined\<close>.
\<close>

fun getProp :: "jsval \<Rightarrow> string \<Rightarrow> error + jsval" where
  "getProp (JObj kvs) k = (case map_of kvs k of None \<Rightarrow> Inr JUndefined | Some v \<Rightarrow> Inr v)"
| "getProp JUndefined k = Inl (TypeError ''Cannot read properties of undefined'')"
| "getProp JNull k = Inl (TypeError ''Cannot read properties of null'')"
| "getProp v k = Inr JUndefined"

definition optional :: "jsval option \<Rightarrow> jsval" where
  "optional v = (case v of None \<Rightarrow> JUndefined | Some x \<Rightarrow> x)"

subsection \<open>\<open>UserAPIImpl\<close>\<close>

text \<open>An instance: the constructor's \<open>_homeUrl\<close> and \<open>_options\<close>.\<close>

record UserAPIImpl =
  homeUrl :: string
  apiOptions :: IOptions

record DocWorkerAPIImpl =
  url :: string
  workerOptions :: IOptions

text \<open>\<open>DocAPIImpl\<close>: the constructor computes \<open>_url\<close> and hands the options to \<open>BaseAPI\<close>.\<close>

record DocAPIImpl =
  docApiUrl :: string
  docApiDocId :: string
  docApiOptions :: IOptions

definition urlWithOrg :: "api_env \<Rightarrow> string \<Rightarrow> string" where
  "urlWithOrg env base = (if isClient env then addCurrentOrgToPath env base else stripTrailingSlash base)"

text \<open>The getter \<open>_url\<close>, recomputed on every call, and \<open>getBaseUrl\<close>.\<close>

definition UserAPIImpl_url :: "api_env \<Rightarrow> UserAPIImpl \<Rightarrow> string" where
  "UserAPIImpl_url env api = urlWithOrg env (homeUrl api)"

definition getBaseUrl :: "api_env \<Rightarrow> UserAPIImpl \<Rightarrow> string" where
  "getBaseUrl env api = UserAPIImpl_url env api"

definition getSessionActive :: "api_env \<Rightarrow> UserAPIImpl \<Rightarrow> jsval io" where
  "getSessionActive env api =
     BaseAPI_requestJson env (UserAPIImpl_url env api @ ''/api/session/access/active'')
       (noInit\<lparr>http_method := Some ''GET''\<rparr>)"

definition setSessionActive :: "api_env \<Rightarrow> UserAPIImpl \<Rightarrow> string \<Rightarrow> jsval io" where
  "setSessionActive env api email =
     (let body = JSON_stringify (JObj [(''email'', JStr email)])
      in BaseAPI_requestJson env (UserAPIImpl_url env api @ ''/api/session/access/active'')
           (noInit\<lparr>http_method := Some ''POST'', body := Some body\<rparr>))"

definition getSessionAll :: "api_env \<Rightarrow> UserAPIImpl \<Rightarrow> jsval io" where
  "getSessionAll env api =
     BaseAPI_requestJson env (UserAPIImpl_url env api @ ''/api/session/access/all'')
       (noInit\<lparr>http_method := Some ''GET''\<rparr>)"

text \<open>\<open>getOrgs(merged = false)\<close>: the argument after the default has been applied.\<close>

definition getOrgs :: "api_env \<Rightarrow> UserAPIImpl \<Rightarrow> bool \<Rightarrow> jsval io" where
  "getOrgs env api merged =
     BaseAPI_requestJson env
       (UserAPIImpl_url env api @ ''/api/orgs?merged='' @ Number_toString (if merged then 1 else 0))
       (noInit\<lparr>http_method := Some ''GET''\<rparr>)"

definition getWorkspace :: "api_env \<Rightarrow> UserAPIImpl \<Rightarrow> int \<Rightarrow> jsval io" where
  "getWorkspace env api workspaceId =
     BaseAPI_requestJson env (UserAPIImpl_url env api @ ''/api/workspaces/'' @ Number_toString workspaceId)
       (noInit\<lparr>http_method := Some ''GET''\<rparr>)"

definition getOrg :: "api_env \<Rightarrow> UserAPIImpl \<Rightarrow> OrgId \<Rightarrow> jsval io" where
  "getOrg env api orgId =
     BaseAPI_requestJson env (UserAPIImpl_url env api @ ''/api/orgs/'' @ orgIdText orgId)
       (noInit\<lparr>http_method := Some ''GET''\<rparr>)"

definition getOrgWorkspaces :: "api_env \<Rightarrow> UserAPIImpl \<Rightarrow> OrgId \<Rightarrow> jsval io" where
  "getOrgWorkspaces env api orgId =
     BaseAPI_requestJson env
       (UserAPIImpl_url env api @ ''/api/orgs/'' @ orgIdText orgId @ ''/workspaces?includeSupport=1'')
       (noInit\<lparr>http_method := Some ''GET''\<rparr>)"

definition getDoc :: "api_env \<Rightarrow> UserAPIImpl \<Rightarrow> string \<Rightarrow> jsval io" where
  "getDoc env api docId =
     BaseAPI_requestJson env (UserAPIImpl_url env api @ ''/api/docs/'' @ docId)
       (noInit\<lparr>http_method := Some ''GET''\<rparr>)"

definition newOrg :: "api_env \<Rightarrow> UserAPIImpl \<Rightarrow> jsval \<Rightarrow> jsval io" where
  "newOrg env api props =
     BaseAPI_requestJson env (UserAPIImpl_url env api @ ''/api/orgs'')
       (noInit\<lparr>http_method := Some ''POST'', body := Some (JSON_stringify props)\<rparr>)"

definition newWorkspace :: "api_env \<Rightarrow> UserAPIImpl \<Rightarrow> jsval \<Rightarrow> OrgId \<Rightarrow> jsval io" where
  "newWorkspace env api props orgId =
     BaseAPI_requestJson env (UserAPIImpl_url env api @ ''/api/orgs/'' @ orgIdText orgId @ ''/workspaces'')
       (noInit\<lparr>http_method := Some ''POST'', body := Some (JSON_stringify props)\<rparr>)"

definition newDoc :: "api_env \<Rightarrow> UserAPIImpl \<Rightarrow> jsval \<Rightarrow> int \<Rightarrow> jsval io" where
  "newDoc env api props workspaceId =
     BaseAPI_requestJson env
       (UserAPIImpl_url env api @ ''/api/workspaces/'' @ Number_toString workspaceId @ ''/docs'')
       (noInit\<lparr>http_method := Some ''POST'', body := Some (JSON_stringify props)\<rparr>)"

text \<open>\<open>newUnsavedDoc(options = {})\<close>: the argument after the default has been applied.\<close>

definition newUnsavedDoc :: "api_env \<Rightarrow> UserAPIImpl \<Rightarrow> jsval \<Rightarrow> jsval io" where
  "newUnsavedDoc env api opts =
     BaseAPI_requestJson env (UserAPIImpl_url env api @ ''/api/docs'')
       (noInit\<lparr>http_method := Some ''POST'', body := Some (JSON_stringify opts)\<rparr>)"

definition renameOrg :: "api_env \<Rightarrow> UserAPIImpl \<Rightarrow> OrgId \<Rightarrow> string \<Rightarrow> unit io" where
  "renameOrg env api orgId name w =
     void (BaseAPI_request env (UserAPIImpl_url env api @ ''/api/orgs/'' @ orgIdText orgId)
       (noInit\<lparr>http_method := Some ''PATCH'', body := Some (JSON_stringify (JObj [(''name'', JStr name)]))\<rparr>) w)"

definition renameWorkspace :: "api_env \<Rightarrow> UserAPIImpl \<Rightarrow> int \<Rightarrow> string \<Rightarrow> unit io" where
  "renameWorkspace env api workspaceId name w =
     void (BaseAPI_request env (UserAPIImpl_url env api @ ''/api/workspaces/'' @ Number_toString workspaceId)
       (noInit\<lparr>http_method := Some ''PATCH'', body := Some (JSON_stringify (JObj [(''name'', JStr name)]))\<rparr>) w)"

definition updateDoc :: "api_env \<Rightarrow> UserAPIImpl \<Rightarrow> string \<Rightarrow> jsval \<Rightarrow> unit io" where
  "updateDoc env api docId props w =
     void (BaseAPI_request env (UserAPIImpl_url env api @ ''/api/docs/'' @ docId)
       (noInit\<lparr>http_method := Some ''PATCH'', body := Some (JSON_stringify props)\<rparr>) w)"

definition renameDoc :: "api_env \<Rightarrow> UserAPIImpl \<Rightarrow> string \<Rightarrow> string \<Rightarrow> unit io" where
  "renameDoc env api docId name = updateDoc env api docId (JObj [(''name'', JStr name)])"

definition deleteOrg :: "api_env \<Rightarrow> UserAPIImpl \<Rightarrow> OrgId \<Rightarrow> unit io" where
  "deleteOrg env api orgId w =
     void (BaseAPI_request env (UserAPIImpl_url env api @ ''/api/orgs/'' @ orgIdText orgId)
       (noInit\<lparr>http_method := Some ''DELETE''\<rparr>) w)"

definition deleteWorkspace :: "api_env \<Rightarrow> UserAPIImpl \<Rightarrow> int \<Rightarrow> unit io" where
  "deleteWorkspace env api workspaceId w =
     void (BaseAPI_request env (UserAPIImpl_url env api @ ''/api/workspaces/'' @ Number_toString workspaceId)
       (noInit\<lparr>http_method := Some ''DELETE''\<rparr>) w)"

definition softDeleteWorkspace :: "api_env \<Rightarrow> UserAPIImpl \<Rightarrow> int \<Rightarrow> unit io" where
  "softDeleteWorkspace env api workspaceId w =
     void (BaseAPI_request env
       (UserAPIImpl_url env api @ ''/api/workspaces/'' @ Number_toString workspaceId @ ''/remove'')
       (noInit\<lparr>http_method := Some ''POST''\<rparr>) w)"

definition undeleteWorkspace :: "api_env \<Rightarrow> UserAPIImpl \<Rightarrow> int \<Rightarrow> unit io" where
  "undeleteWorkspace env api workspaceId w =
     void (BaseAPI_request env
       (UserAPIImpl_url env api @ ''/api/workspaces/'' @ Number_toString workspaceId @ ''/unremove'')
       (noInit\<lparr>http_method := Some ''POST''\<rparr>) w)"

definition deleteDoc :: "api_env \<Rightarrow> UserAPIImpl \<Rightarrow> string \<Rightarrow> unit io" where
  "deleteDoc env api docId w =
     void (BaseAPI_request env (UserAPIImpl_url env api @ ''/api/docs/'' @ docId)
       (noInit\<lparr>http_method := Some ''DELETE''\<rparr>) w)"

definition softDeleteDoc :: "api_env \<Rightarrow> UserAPIImpl \<Rightarrow> string \<Rightarrow> unit io" where
  "softDeleteDoc env api docId w =
     void (BaseAPI_request env (UserAPIImpl_url env api @ ''/api/docs/'' @ docId @ ''/remove'')
       (noInit\<lparr>http_method := Some ''POST''\<rparr>) w)"

definition undeleteDoc :: "api_env \<Rightarrow> UserAPIImpl \<Rightarrow> string \<Rightarrow> unit io" where
  "undeleteDoc env api docId w =
     void (BaseAPI_request env (UserAPIImpl_url env api @ ''/api/docs/'' @ docId @ ''/unremove'')
       (noInit\<lparr>http_method := Some ''POST''\<rparr>) w)"

definition updateOrgPermissions :: "api_env \<Rightarrow> UserAPIImpl \<Rightarrow> OrgId \<Rightarrow> jsval \<Rightarrow> unit io" where
  "updateOrgPermissions env api orgId delta w =
     void (BaseAPI_request env (UserAPIImpl_url env api @ ''/api/orgs/'' @ orgIdText orgId @ ''/access'')
       (noInit\<lparr>http_method := Some ''PATCH'', body := Some (JSON_stringify (JObj [(''delta'', delta)]))\<rparr>) w)"

definition updateWorkspacePermissions :: "api_env \<Rightarrow> UserAPIImpl \<Rightarrow> int \<Rightarrow> jsval \<Rightarrow> unit io" where
  "updateWorkspacePermissions env api workspaceId delta w =
     void (BaseAPI_request env
       (UserAPIImpl_url env api @ ''/api/workspaces/'' @ Number_toString workspaceId @ ''/access'')
       (noInit\<lparr>http_method := Some ''PATCH'', body := Some (JSON_stringify (JObj [(''delta'', delta)]))\<rparr>) w)"

definition updateDocPermissions :: "api_env \<Rightarrow> UserAPIImpl \<Rightarrow> string \<Rightarrow> jsval \<Rightarrow> unit io" where
  "updateDocPermissions env api docId delta w =
     void (BaseAPI_request env (UserAPIImpl_url env api @ ''/api/docs/'' @ docId @ ''/access'')
       (noInit\<lparr>http_method := Some ''PATCH'', body := Some (JSON_stringify (JObj [(''delta'', delta)]))\<rparr>) w)"

definition getOrgAccess :: "api_env \<Rightarrow> UserAPIImpl \<Rightarrow> OrgId \<Rightarrow> jsval io" where
  "getOrgAccess env api orgId =
     BaseAPI_requestJson env (UserAPIImpl_url env api @ ''/api/orgs/'' @ orgIdText orgId @ ''/access'')
       (noInit\<lparr>http_method := Some ''GET''\<rparr>)"

definition getWorkspaceAccess :: "api_env \<Rightarrow> UserAPIImpl \<Rightarrow> int \<Rightarrow> jsval io" where
  "getWorkspaceAccess env api workspaceId =
     BaseAPI_requestJson env
       (UserAPIImpl_url env api @ ''/api/workspaces/'' @ Number_toString workspaceId @ ''/access'')
       (noInit\<lparr>http_method := Some ''GET''\<rparr>)"

definition getDocAccess :: "api_env \<Rightarrow> UserAPIImpl \<Rightarrow> string \<Rightarrow> jsval io" where
  "getDocAccess env api docId =
     BaseAPI_requestJson env (UserAPIImpl_url env api @ ''/api/docs/'' @ docId @ ''/access'')
       (noInit\<lparr>http_method := Some ''GET''\<rparr>)"

definition pinDoc :: "api_env \<Rightarrow> UserAPIImpl \<Rightarrow> string \<Rightarrow> unit io" where
  "pinDoc env api docId w =
     void (BaseAPI_request env (UserAPIImpl_url env api @ ''/api/docs/'' @ docId @ ''/pin'')
       (noInit\<lparr>http_method := Some ''PATCH''\<rparr>) w)"

definition unpinDoc :: "api_env \<Rightarrow> UserAPIImpl \<Rightarrow> string \<Rightarrow> unit io" where
  "unpinDoc env api docId w =
     void (BaseAPI_request env (UserAPIImpl_url env api @ ''/api/docs/'' @ docId @ ''/unpin'')
       (noInit\<lparr>http_method := Some ''PATCH''\<rparr>) w)"

definition moveDoc :: "api_env \<Rightarrow> UserAPIImpl \<Rightarrow> string \<Rightarrow> int \<Rightarrow> unit io" where
  "moveDoc env api docId workspaceId w =
     void (BaseAPI_request env (UserAPIImpl_url env api @ ''/api/docs/'' @ docId @ ''/move'')
       (noInit\<lparr>http_method := Some ''PATCH'',
               body := Some (JSON_stringify (JObj [(''workspace'', JNum workspaceId)]))\<rparr>) w)"

text \<open>\<open>getUserProfile\<close> gives no options object; it is taken as the empty one.\<close>

definition getUserProfile :: "api_env \<Rightarrow> UserAPIImpl \<Rightarrow> jsval io" where
  "getUserProfile env api =
     BaseAPI_requestJson env (UserAPIImpl_url env api @ ''/api/profile/user'') noInit"

definition updateUserName :: "api_env \<Rightarrow> UserAPIImpl \<Rightarrow> string \<Rightarrow> unit io" where
  "updateUserName env api name w =
     void (BaseAPI_request env (UserAPIImpl_url env api @ ''/api/profile/user/name'')
       (noInit\<lparr>http_method := Some ''POST'', body := Some (JSON_stringify (JObj [(''name'', JStr name)]))\<rparr>) w)"

definition getWorker :: "api_env \<Rightarrow> UserAPIImpl \<Rightarrow> string \<Rightarrow> jsval io" where
  "getWorker env api key w =
     await (BaseAPI_requestJson env (UserAPIImpl_url env api @ ''/api/worker/'' @ key)
              (noInit\<lparr>http_method := Some ''GET'', credentials := Some ''include''\<rparr>) w)
       (\<lambda>json. case getProp json ''docWorkerUrl'' of Inl e \<Rightarrow> reject e | Inr v \<Rightarrow> resolve v)"

text \<open>
  \<open>getWorkerAPI\<close>: \<open>getWorker\<close> is declared to give a string. For any other value
  \<open>_urlWithOrg\<close> has no string to work on, which is a \<open>TypeError\<close> here.
\<close>

definition getWorkerAPI :: "api_env \<Rightarrow> UserAPIImpl \<Rightarrow> string \<Rightarrow> DocWorkerAPIImpl io" where
  "getWorkerAPI env api key w =
     await (getWorker env api key w)
       (\<lambda>v. case v of
               JStr u \<Rightarrow> resolve \<lparr>url = urlWithOrg env u, workerOptions = apiOptions api\<rparr>
             | _ \<Rightarrow> reject (TypeError ''docWorkerUrl is not a string''))"

definition new_DocAPIImpl :: "string \<Rightarrow> string \<Rightarrow> IOptions \<Rightarrow> DocAPIImpl" where
  "new_DocAPIImpl u d opts = \<lparr>docApiUrl = u @ ''/api/docs/'' @ d, docApiDocId = d, docApiOptions = opts\<rparr>"

definition getDocAPI :: "api_env \<Rightarrow> UserAPIImpl \<Rightarrow> string \<Rightarrow> DocAPIImpl" where
  "getDocAPI env api d = new_DocAPIImpl (UserAPIImpl_url env api) d (apiOptions api)"

definition fetchApiKey :: "api_env \<Rightarrow> UserAPIImpl \<Rightarrow> string io" where
  "fetchApiKey env api w =
     await (BaseAPI_fetch env (UserAPIImpl_url env api @ ''/api/profile/apiKey'')
              (noInit\<lparr>credentials := Some ''include''\<rparr>) w)
       (\<lambda>resp. case body_text resp of Inl e \<Rightarrow> reject e | Inr t \<Rightarrow> resolve t)"

definition createApiKey :: "api_env \<Rightarrow> UserAPIImpl \<Rightarrow> string io" where
  "createApiKey env api w =
     await (BaseAPI_fetch env (UserAPIImpl_url env api @ ''/api/profile/apiKey'')
              (noInit\<lparr>credentials := Some ''include'', http_method := Some ''POST''\<rparr>) w)
       (\<lambda>res. case body_text res of Inl e \<Rightarrow> reject e | Inr t \<Rightarrow> resolve t)"

definition deleteApiKey :: "api_env \<Rightarrow> UserAPIImpl \<Rightarrow> unit io" where
  "deleteApiKey env api w =
     void (BaseAPI_fetch env (UserAPIImpl_url env api @ ''/api/profile/apiKey'')
              (noInit\<lparr>credentials := Some ''include'', http_method := Some ''DELETE''\<rparr>) w)"

definition applyUserActions :: "api_env \<Rightarrow> UserAPIImpl \<Rightarrow> string \<Rightarrow> jsval list \<Rightarrow> jsval io" where
  "applyUserActions env api docId actions =
     BaseAPI_requestJson env (UserAPIImpl_url env api @ ''/api/docs/'' @ docId @ ''/apply'')
       (noInit\<lparr>http_method := Some ''POST'', body := Some (JSON_stringify (JArr actions))\<rparr>)"

text \<open>
  \<open>importUnsavedDoc(material, options?)\<close>, the options given property by property
  (\<open>options = options || {}\<close>). Either \<open>formData.append\<close> may throw, which ends the
  method before \<open>requestAxios\<close> is called.
\<close>

definition importUnsavedDoc ::
  "api_env \<Rightarrow> UserAPIImpl \<Rightarrow> UploadType \<Rightarrow> string option \<Rightarrow> string option \<Rightarrow> callback option \<Rightarrow> jsval io" where
  "importUnsavedDoc env api material filename timezone progress w =
     (case FormData_append env BaseAPI_newFormData (FileEntry ''upload'' material filename) of
        Inl e \<Rightarrow> reject e w
      | Inr formData1 \<Rightarrow>
          (case (case truthy timezone of
                   Some tz \<Rightarrow> FormData_append env formData1 (FieldEntry ''timezone'' tz)
                 | None \<Rightarrow> Inr formData1) of
             Inl e \<Rightarrow> reject e w
           | Inr formData \<Rightarrow>
               await (BaseAPI_requestAxios env (UserAPIImpl_url env api @ ''/api/docs'')
                        \<lparr>ax_headers = headers (apiOptions api), ax_method = Some ''POST'',
                          ax_data = Some formData, onUploadProgress = progress\<rparr> w)
                 (\<lambda>resp. resolve (payload resp))))"

definition deleteUser :: "api_env \<Rightarrow> UserAPIImpl \<Rightarrow> int \<Rightarrow> string \<Rightarrow> unit io" where
  "deleteUser env api userId name w =
     void (BaseAPI_request env (UserAPIImpl_url env api @ ''/api/users/'' @ Number_toString userId)
       (noInit\<lparr>http_method := Some ''DELETE'', body := Some (JSON_stringify (JObj [(''name'', JStr name)]))\<rparr>) w)"

subsection \<open>\<open>DocWorkerAPIImpl\<close>\<close>

definition importDocToWorkspace ::
  "api_env \<Rightarrow> DocWorkerAPIImpl \<Rightarrow> int \<Rightarrow> int \<Rightarrow> jsval option \<Rightarrow> jsval io" where
  "importDocToWorkspace env wk uploadId workspaceId browserSettings =
     BaseAPI_requestJson env (url wk @ ''/api/workspaces/'' @ Number_toString workspaceId @ ''/import'')
       (noInit\<lparr>http_method := Some ''POST'',
               body := Some (JSON_stringify
                 (JObj [(''uploadId'', JNum uploadId), (''browserSettings'', optional browserSettings)]))\<rparr>)"

text \<open>\<open>upload(material, filename?)\<close>; \<open>formData.append\<close> may throw before any request.\<close>

definition upload :: "api_env \<Rightarrow> DocWorkerAPIImpl \<Rightarrow> UploadType \<Rightarrow> string option \<Rightarrow> jsval io" where
  "upload env wk material filename w =
     (case FormData_append env BaseAPI_newFormData (FileEntry ''upload'' material filename) of
        Inl e \<Rightarrow> reject e w
      | Inr formData \<Rightarrow>
          await (BaseAPI_requestJson env (url wk @ ''/uploads'')
                   (noInit\<lparr>init_headers := headers (workerOptions wk), http_method := Some ''POST'',
                           body := Some (FormDataBody formData)\<rparr>) w)
            (\<lambda>json. case getProp json ''uploadId'' of Inl e \<Rightarrow> reject e | Inr v \<Rightarrow> resolve v))"

text \<open>\<open>downloadDoc(docId, template = false)\<close>.\<close>

definition downloadDoc :: "api_env \<Rightarrow> DocWorkerAPIImpl \<Rightarrow> string \<Rightarrow> bool \<Rightarrow> Response io" where
  "downloadDoc env wk docId template w =
     (let extra = (if template then ''&template=1'' else '''')
      in await (BaseAPI_request env (url wk @ ''/download?doc='' @ docId @ extra)
                  (noInit\<lparr>init_headers := headers (workerOptions wk), http_method := Some ''GET''\<rparr>) w)
           (\<lambda>result.
              if \<not> ok result
              then (case body_text result of Inl e \<Rightarrow> reject e | Inr t \<Rightarrow> reject (Error t))
              else resolve result))"

text \<open>\<open>copyDoc(docId, template = false, name?)\<close>; \<open>new URL\<close> may throw before any request.\<close>

definition copyDoc :: "api_env \<Rightarrow> DocWorkerAPIImpl \<Rightarrow> string \<Rightarrow> bool \<Rightarrow> string option \<Rightarrow> jsval io" where
  "copyDoc env wk docId template name w =
     (let params = (if template then [(''template'', ''1'')] else [])
                   @ (case truthy name of Some n \<Rightarrow> [(''name'', n)] | None \<Rightarrow> [])
      in case URL_href env (url wk @ ''/copy?doc='' @ docId) params of
           None \<Rightarrow> reject (TypeError ''Invalid URL'') w
         | Some href \<Rightarrow>
             await (BaseAPI_requestJson env href
                      (noInit\<lparr>init_headers := headers (workerOptions wk), http_method := Some ''POST''\<rparr>) w)
               (\<lambda>json. case getProp json ''uploadId'' of Inl e \<Rightarrow> reject e | Inr v \<Rightarrow> resolve v))"

subsection \<open>\<open>DocAPIImpl\<close>\<close>

definition getRows :: "api_env \<Rightarrow> DocAPIImpl \<Rightarrow> string \<Rightarrow> jsval io" where
  "getRows env doc tableId =
     BaseAPI_requestJson env (docApiUrl doc @ ''/tables/'' @ tableId @ ''/data'') noInit"

definition updateRows :: "api_env \<Rightarrow> DocAPIImpl \<Rightarrow> string \<Rightarrow> jsval \<Rightarrow> jsval io" where
  "updateRows env doc tableId changes =
     BaseAPI_requestJson env (docApiUrl doc @ ''/tables/'' @ tableId @ ''/data'')
       (noInit\<lparr>body := Some (JSON_stringify changes), http_method := Some ''PATCH''\<rparr>)"

definition addRows :: "api_env \<Rightarrow> DocAPIImpl \<Rightarrow> string \<Rightarrow> jsval \<Rightarrow> jsval io" where
  "addRows env doc tableId additions =
     BaseAPI_requestJson env (docApiUrl doc @ ''/tables/'' @ tableId @ ''/data'')
       (noInit\<lparr>body := Some (JSON_stringify additions), http_method := Some ''POST''\<rparr>)"

definition DocAPI_replace :: "api_env \<Rightarrow> DocAPIImpl \<Rightarrow> jsval \<Rightarrow> jsval io" where
  "DocAPI_replace env doc source =
     BaseAPI_requestJson env (docApiUrl doc @ ''/replace'')
       (noInit\<lparr>body := Some (JSON_stringify source), http_method := Some ''POST''\<rparr>)"

definition getSnapshots :: "api_env \<Rightarrow> DocAPIImpl \<Rightarrow> jsval io" where
  "getSnapshots env doc = BaseAPI_requestJson env (docApiUrl doc @ ''/snapshots'') noInit"

definition forceReload :: "api_env \<Rightarrow> DocAPIImpl \<Rightarrow> unit io" where
  "forceReload env doc w =
     void (BaseAPI_request env (docApiUrl doc @ ''/force-reload'') (noInit\<lparr>http_method := Some ''POST''\<rparr>) w)"

definition compareState :: "api_env \<Rightarrow> DocAPIImpl \<Rightarrow> string \<Rightarrow> jsval io" where
  "compareState env doc remoteDocId =
     BaseAPI_requestJson env (docApiUrl doc @ ''/compare/'' @ remoteDocId) noInit"

text \<open>\<open>getTable\<close> of \<open>UserAPIImpl\<close>, a shortcut for \<open>getDocAPI(docId).getRows(tableName)\<close>.\<close>

definition getTable :: "api_env \<Rightarrow> UserAPIImpl \<Rightarrow> string \<Rightarrow> string \<Rightarrow> jsval io" where
  "getTable env api d tableName = getRows env (getDocAPI env api d) tableName"

subsection \<open>Instances as objects: \<open>forRemoved\<close>\<close>

text \<open>
  \<open>forRemoved\<close> creates objects, so here the instances and their options objects live in
  a store and are named by their addresses; an instance holds the address of its options
  object. A new object gets the next free address.
\<close>

record UserAPIImpl_object =
  homeUrl_field :: string
  options_field :: nat

record store =
  optionsObjects :: "IOptions list"
  apiObjects :: "UserAPIImpl_object list"

text \<open>
  The constructor \<open>new UserAPIImpl(_homeUrl, _options)\<close> keeps both arguments. It also
  passes the options to the constructor of \<open>BaseAPI\<close>, which is not in the sources and is
  taken to read them only.
\<close>

definition new_UserAPIImpl :: "string \<Rightarrow> nat \<Rightarrow> store \<Rightarrow> nat \<times> store" where
  "new_UserAPIImpl h optsAddr st =
     (length (apiObjects st),
      st\<lparr>apiObjects := apiObjects st @ [\<lparr>homeUrl_field = h, options_field = optsAddr\<rparr>]\<rparr>)"

text \<open>The object literal \<open>{...o, extraParameters}\<close>: a new object.\<close>

definition spread_with_extraParameters :: "nat \<Rightarrow> (string \<times> string) list \<Rightarrow> store \<Rightarrow> nat \<times> store" where
  "spread_with_extraParameters o_addr extra st =
     (length (optionsObjects st),
      st\<lparr>optionsObjects := optionsObjects st @ [(optionsObjects st ! o_addr)\<lparr>extraParameters := Some extra\<rparr>]\<rparr>)"

text \<open>\<open>forRemoved\<close>, called on the instance at address \<open>this\<close>; nothing for a dangling address.\<close>

definition forRemoved :: "nat \<Rightarrow> store \<Rightarrow> (nat \<times> store) option" where
  "forRemoved this st =
     (if this < length (apiObjects st) \<and> options_field (apiObjects st ! this) < length (optionsObjects st)
      then
        let extraParameters = [(''showRemoved'', ''1'')];
            self = apiObjects st ! this;
            (o_addr, st1) = spread_with_extraParameters (options_field self) extraParameters st
        in Some (new_UserAPIImpl (homeUrl_field self) o_addr st1)
      else None)"

text \<open>The instance at an address, as the methods above take it.\<close>

definition instance_at :: "store \<Rightarrow> nat \<Rightarrow> UserAPIImpl" where
  "instance_at st a =
     \<lparr>homeUrl = homeUrl_field (apiObjects st ! a),
      apiOptions = optionsObjects st ! options_field (apiObjects st ! a)\<rparr>"

subsection \<open>Calls of request-issuing methods\<close>

text \<open>
  Every method of the three classes that hands a request to \<open>BaseAPI\<close>, with its
  arguments. (\<open>getBaseUrl\<close>, \<open>forRemoved\<close>, \<open>getDocAPI\<close> and \<open>getBillingAPI\<close> issue
  nothing.)
\<close>

datatype UserAPI_call =
    GetSessionActive
  | SetSessionActive string
  | GetSessionAll
  | GetOrgs bool
  | GetWorkspace int
  | GetOrg OrgId
  | GetOrgWorkspaces OrgId
  | GetDoc string
  | NewOrg jsval
  | NewWorkspace jsval OrgId
  | NewDoc jsval int
  | NewUnsavedDoc jsval
  | RenameOrg OrgId string
  | RenameWorkspace int string
  | RenameDoc string string
  | UpdateDoc string jsval
  | DeleteOrg OrgId
  | DeleteWorkspace int
  | SoftDeleteWorkspace int
  | UndeleteWorkspace int
  | DeleteDoc string
  | SoftDeleteDoc string
  | UndeleteDoc string
  | UpdateOrgPermissions OrgId jsval
  | UpdateWorkspacePermissions int jsval
  | UpdateDocPermissions string jsval
  | GetOrgAccess OrgId
  | GetWorkspaceAccess int
  | GetDocAccess string
  | PinDoc string
  | UnpinDoc string
  | MoveDoc string int
  | GetUserProfile
  | UpdateUserName string
  | GetWorker string
  | GetWorkerAPI string
  | FetchApiKey
  | CreateApiKey
  | DeleteApiKey
  | GetTable string string
  | ApplyUserActions string "jsval list"
  | ImportUnsavedDoc UploadType "string option" "string option" "callback option"
  | DeleteUser int string

datatype DocWorkerAPI_call =
    ImportDocToWorkspace int int "jsval option"
  | Upload UploadType "string option"
  | DownloadDoc string bool
  | CopyDoc string bool "string option"

datatype DocAPI_call =
    GetRows string
  | UpdateRows string jsval
  | AddRows string jsval
  | Replace jsval
  | GetSnapshots
  | ForceReload
  | CompareState string

datatype invocation =
    OnUserAPI UserAPIImpl UserAPI_call
  | OnDocWorkerAPI DocWorkerAPIImpl DocWorkerAPI_call
  | OnDocAPI DocAPIImpl DocAPI_call

text \<open>The log after a call, whatever the call returns.\<close>

fun userAPI_log :: "api_env \<Rightarrow> UserAPIImpl \<Rightarrow> UserAPI_call \<Rightarrow> call list \<Rightarrow> call list" where
  "userAPI_log env api GetSessionActive w = snd (getSessionActive env api w)"
| "userAPI_log env api (SetSessionActive email) w = snd (setSessionActive env api email w)"
| "userAPI_log env api GetSessionAll w = snd (getSessionAll env api w)"
| "userAPI_log env api (GetOrgs merged) w = snd (getOrgs env api merged w)"
| "userAPI_log env api (GetWorkspace i) w = snd (getWorkspace env api i w)"
| "userAPI_log env api (GetOrg orgId) w = snd (getOrg env api orgId w)"
| "userAPI_log env api (GetOrgWorkspaces orgId) w = snd (getOrgWorkspaces env api orgId w)"
| "userAPI_log env api (GetDoc d) w = snd (getDoc env api d w)"
| "userAPI_log env api (NewOrg props) w = snd (newOrg env api props w)"
| "userAPI_log env api (NewWorkspace props orgId) w = snd (newWorkspace env api props orgId w)"
| "userAPI_log env api (NewDoc props i) w = snd (newDoc env api props i w)"
| "userAPI_log env api (NewUnsavedDoc opts) w = snd (newUnsavedDoc env api opts w)"
| "userAPI_log env api (RenameOrg orgId name) w = snd (renameOrg env api orgId name w)"
| "userAPI_log env api (RenameWorkspace i name) w = snd (renameWorkspace env api i name w)"
| "userAPI_log env api (RenameDoc d name) w = snd (renameDoc env api d name w)"
| "userAPI_log env api (UpdateDoc d props) w = snd (updateDoc env api d props w)"
| "userAPI_log env api (DeleteOrg orgId) w = snd (deleteOrg env api orgId w)"
| "userAPI_log env api (DeleteWorkspace i) w = snd (deleteWorkspace env api i w)"
| "userAPI_log env api (SoftDeleteWorkspace i) w = snd (softDeleteWorkspace env api i w)"
| "userAPI_log env api (UndeleteWorkspace i) w = snd (undeleteWorkspace env api i w)"
| "userAPI_log env api (DeleteDoc d) w = snd (deleteDoc env api d w)"
| "userAPI_log env api (SoftDeleteDoc d) w = snd (softDeleteDoc env api d w)"
| "userAPI_log env api (UndeleteDoc d) w = snd (undeleteDoc env api d w)"
| "userAPI_log env api (UpdateOrgPermissions orgId delta) w = snd (updateOrgPermissions env api orgId delta w)"
| "userAPI_log env api (UpdateWorkspacePermissions i delta) w = snd (updateWorkspacePermissions env api i delta w)"
| "userAPI_log env api (UpdateDocPermissions d delta) w = snd (updateDocPermissions env api d delta w)"
| "userAPI_log env api (GetOrgAccess orgId) w = snd (getOrgAccess env api orgId w)"
| "userAPI_log env api (GetWorkspaceAccess i) w = snd (getWorkspaceAccess env api i w)"
| "userAPI_log env api (GetDocAccess d) w = snd (getDocAccess env api d w)"
| "userAPI_log env api (PinDoc d) w = snd (pinDoc env api d w)"
| "userAPI_log env api (UnpinDoc d) w = snd (unpinDoc env api d w)"
| "userAPI_log env api (MoveDoc d i) w = snd (moveDoc env api d i w)"
| "userAPI_log env api GetUserProfile w = snd (getUserProfile env api w)"
| "userAPI_log env api (UpdateUserName name) w = snd (updateUserName env api name w)"
| "userAPI_log env api (GetWorker key) w = snd (getWorker env api key w)"
| "userAPI_log env api (GetWorkerAPI key) w = snd (getWorkerAPI env api key w)"
| "userAPI_log env api FetchApiKey w = snd (fetchApiKey env api w)"
| "userAPI_log env api CreateApiKey w = snd (createApiKey env api w)"
| "userAPI_log env api DeleteApiKey w = snd (deleteApiKey env api w)"
| "userAPI_log env api (GetTable d t) w = snd (getTable env api d t w)"
| "userAPI_log env api (ApplyUserActions d actions) w = snd (applyUserActions env api d actions w)"
| "userAPI_log env api (ImportUnsavedDoc material filename timezone progress) w =
     snd (importUnsavedDoc env api material filename timezone progress w)"
| "userAPI_log env api (DeleteUser i name) w = snd (deleteUser env api i name w)"

fun docWorkerAPI_log :: "api_env \<Rightarrow> DocWorkerAPIImpl \<Rightarrow> DocWorkerAPI_call \<Rightarrow> call list \<Rightarrow> call list" where
  "docWorkerAPI_log env wk (ImportDocToWorkspace u i bs) w = snd (importDocToWorkspace env wk u i bs w)"
| "docWorkerAPI_log env wk (Upload material filename) w = snd (upload env wk material filename w)"
| "docWorkerAPI_log env wk (DownloadDoc d template) w = snd (downloadDoc env wk d template w)"
| "docWorkerAPI_log env wk (CopyDoc d template name) w = snd (copyDoc env wk d template name w)"

fun docAPI_log :: "api_env \<Rightarrow> DocAPIImpl \<Rightarrow> DocAPI_call \<Rightarrow> call list \<Rightarrow> call list" where
  "docAPI_log env doc (GetRows t) w = snd (getRows env doc t w)"
| "docAPI_log env doc (UpdateRows t changes) w = snd (updateRows env doc t changes w)"
| "docAPI_log env doc (AddRows t additions) w = snd (addRows env doc t additions w)"
| "docAPI_log env doc (Replace source) w = snd (DocAPI_replace env doc source w)"
| "docAPI_log env doc GetSnapshots w = snd (getSnapshots env doc w)"
| "docAPI_log env doc ForceReload w = snd (forceReload env doc w)"
| "docAPI_log env doc (CompareState r) w = snd (compareState env doc r w)"

fun issued :: "api_env \<Rightarrow> invocation \<Rightarrow> call list \<Rightarrow> call list" where
  "issued env (OnUserAPI api c) w = userAPI_log env api c w"
| "issued env (OnDocWorkerAPI wk c) w = docWorkerAPI_log env wk c w"
| "issued env (OnDocAPI doc c) w = docAPI_log env doc c w"

text \<open>The calls that send a form instead of JSON.\<close>

fun sendsForm :: "invocation \<Rightarrow> bool" where
  "sendsForm (OnUserAPI api (ImportUnsavedDoc material filename timezone progress)) = True"
| "sendsForm (OnDocWorkerAPI wk (Upload material filename)) = True"
| "sendsForm c = False"

fun isFormBody :: "body option \<Rightarrow> bool" where
  "isFormBody (Some (FormDataBody f)) = True"
| "isFormBody b = False"

fun isJsonBody :: "body option \<Rightarrow> bool" where
  "isJsonBody (Some (JSON_stringify v)) = True"
| "isJsonBody b = False"

text \<open>
  The value that a call gives to \<open>JSON.stringify\<close> for its body, if it does: an argument,
  or an object literal around arguments. The instance plays no part in it.
\<close>

fun jsonArgument :: "invocation \<Rightarrow> jsval option" where
  "jsonArgument (OnUserAPI api (SetSessionActive email)) = Some (JObj [(''email'', JStr email)])"
| "jsonArgument (OnUserAPI api (NewOrg props)) = Some props"
| "jsonArgument (OnUserAPI api (NewWorkspace props orgId)) = Some props"
| "jsonArgument (OnUserAPI api (NewDoc props i)) = Some props"
| "jsonArgument (OnUserAPI api (NewUnsavedDoc opts)) = Some opts"
| "jsonArgument (OnUserAPI api (RenameOrg orgId name)) = Some (JObj [(''name'', JStr name)])"
| "jsonArgument (OnUserAPI api (RenameWorkspace i name)) = Some (JObj [(''name'', JStr name)])"
| "jsonArgument (OnUserAPI api (RenameDoc d name)) = Some (JObj [(''name'', JStr name)])"
| "jsonArgument (OnUserAPI api (UpdateDoc d props)) = Some props"
| "jsonArgument (OnUserAPI api (UpdateOrgPermissions orgId delta)) = Some (JObj [(''delta'', delta)])"
| "jsonArgument (OnUserAPI api (UpdateWorkspacePermissions i delta)) = Some (JObj [(''delta'', delta)])"
| "jsonArgument (OnUserAPI api (UpdateDocPermissions d delta)) = Some (JObj [(''delta'', delta)])"
| "jsonArgument (OnUserAPI api (MoveDoc d i)) = Some (JObj [(''workspace'', JNum i)])"
| "jsonArgument (OnUserAPI api (UpdateUserName name)) = Some (JObj [(''name'', JStr name)])"
| "jsonArgument (OnUserAPI api (ApplyUserActions d actions)) = Some (JArr actions)"
| "jsonArgument (OnUserAPI api (DeleteUser i name)) = Some (JObj [(''name'', JStr name)])"
| "jsonArgument (OnDocWorkerAPI wk (ImportDocToWorkspace u i bs)) =
     Some (JObj [(''uploadId'', JNum u), (''browserSettings'', optional bs)])"
| "jsonArgument (OnDocAPI doc (UpdateRows t changes)) = Some changes"
| "jsonArgument (OnDocAPI doc (AddRows t additions)) = Some additions"
| "jsonArgument (OnDocAPI doc (Replace source)) = Some source"
| "jsonArgument c = None"

text \<open>
  Three methods run platform code that may throw before they reach their request:
  \<open>copyDoc\<close> builds its URL with \<open>new URL\<close>, which throws on a string that is no URL,
  and \<open>upload\<close> and \<open>importUnsavedDoc\<close> fill a form with \<open>formData.append\<close>. This says
  that the call is one of them and that the platform throws.
\<close>

fun throwsBeforeRequest :: "api_env \<Rightarrow> invocation \<Rightarrow> bool" where
  "throwsBeforeRequest env (OnDocWorkerAPI wk (CopyDoc d template name)) =
     (URL_href env (url wk @ ''/copy?doc='' @ d)
        ((if template then [(''template'', ''1'')] else [])
         @ (case truthy name of Some n \<Rightarrow> [(''name'', n)] | None \<Rightarrow> [])) = None)"
| "throwsBeforeRequest env (OnDocWorkerAPI wk (Upload material filename)) =
     isl (FormData_append env BaseAPI_newFormData (FileEntry ''upload'' material filename))"
| "throwsBeforeRequest env (OnUserAPI api (ImportUnsavedDoc material filename timezone progress)) =
     (case FormData_append env BaseAPI_newFormData (FileEntry ''upload'' material filename) of
        Inl e \<Rightarrow> True
      | Inr formData1 \<Rightarrow>
          (case truthy timezone of
             Some tz \<Rightarrow> isl (FormData_append env formData1 (FieldEntry ''timezone'' tz))
           | None \<Rightarrow> False))"
| "throwsBeforeRequest env c = False"

subsection \<open>Sample inputs of the REST client\<close>

definition sampleResponse :: Response where
  "sampleResponse = \<lparr>ok = True, body_text = Inr ''{}'', payload = JObj []\<rparr>"

definition notFound :: Response where
  "notFound = \<lparr>ok = False, body_text = Inr ''document not found'', payload = JUndefined\<rparr>"

text \<open>
  A sample platform: a string parses as a URL when it starts with a scheme, and the search
  parameters are written behind an existing query; the form refuses a string as a file, as
  the browser's does.
\<close>

definition sampleHref :: "string \<Rightarrow> (string \<times> string) list \<Rightarrow> string option" where
  "sampleHref s ps =
     (if take 7 s = ''http://'' \<or> take 8 s = ''https://''
      then Some (s @ concat (map (\<lambda>(k, v). ''&'' @ k @ ''='' @ v) ps))
      else None)"

fun sampleAppend :: "FormEntry \<Rightarrow> error option" where
  "sampleAppend (FileEntry n (UploadString s) f) = Some (TypeError ''parameter 2 is not of type Blob'')"
| "sampleAppend e = None"

definition sampleEnv :: api_env where
  "sampleEnv = \<lparr>isClient = False, addCurrentOrgToPath = (\<lambda>s. s),
                 transport = (\<lambda>w c. Inr sampleResponse),
                 URL_href = sampleHref,
                 formData_append = sampleAppend\<rparr>"

definition failingEnv :: api_env where
  "failingEnv = sampleEnv\<lparr>transport := (\<lambda>w c. Inr notFound)\<rparr>"

definition noIOptions :: IOptions where
  "noIOptions = \<lparr>headers = None, extraParameters = None\<rparr>"

definition sampleAPI :: UserAPIImpl where
  "sampleAPI = \<lparr>homeUrl = ''http://host/'', apiOptions = noIOptions\<rparr>"

definition sampleWorker :: DocWorkerAPIImpl where
  "sampleWorker = \<lparr>url = ''http://worker'', workerOptions = noIOptions\<rparr>"

text \<open>A worker whose URL has no scheme: \<open>new URL\<close> throws on it.\<close>

definition relativeWorker :: DocWorkerAPIImpl where
  "relativeWorker = \<lparr>url = ''worker'', workerOptions = noIOptions\<rparr>"

text \<open>A store with one instance, whose options already carry an extra parameter.\<close>

definition sampleStore :: store where
  "sampleStore =
     \<lparr>optionsObjects =
        [\<lparr>headers = Some [(''Authorization'', ''Bearer k'')], extraParameters = Some [(''x'', ''y'')]\<rparr>],
      apiObjects = [\<lparr>homeUrl_field = ''http://host'', options_field = 0\<rparr>]\<rparr>"

section \<open>Properties of the behavioural-prompts manager\<close>

lemma set_Set_add: "set (Set_add xs x) = insert x (set xs)"
  by (auto simp: Set_add_def)

lemma set_foldl_Set_add: "set (foldl Set_add acc xs) = set acc \<union> set xs"
  by (induction xs arbitrary: acc) (auto simp: set_Set_add)

lemma set_new_Set: "set (new_Set xs) = set xs"
  by (simp add: new_Set_def set_foldl_Set_add)

lemma distinct_Set_add: "distinct xs \<Longrightarrow> distinct (Set_add xs x)"
  by (auto simp: Set_add_def)

lemma distinct_foldl_Set_add: "distinct acc \<Longrightarrow> distinct (foldl Set_add acc xs)"
  by (induction xs arbitrary: acc) (auto simp: distinct_Set_add)

lemma distinct_new_Set: "distinct (new_Set xs)"
  by (simp add: new_Set_def distinct_foldl_Set_add)

lemma dismissed_markAsSeen: "set (dismissedTips (prefs (markAsSeen p m))) = insert p (set (dismissedTips (prefs m)))"
  by (simp add: markAsSeen_def Let_def set_Set_add set_new_Set)

text \<open>
  C10. Marking a prompt as seen is monotone and idempotent on the \<open>dismissedTips\<close>
  preference: after \<open>_markAsSeen(p)\<close> the preference contains \<open>p\<close> and every tip it
  contained before; marking a prompt that is dismissed already leaves the set of dismissed
  tips as it was; and marking twice gives the very list that marking once gives.
\<close>

theorem markAsSeen_monotone_idempotent:
  "p \<in> set (dismissedTips (prefs (markAsSeen p m)))
   \<and> set (dismissedTips (prefs m)) \<subseteq> set (dismissedTips (prefs (markAsSeen p m)))
   \<and> (p \<in> set (dismissedTips (prefs m)) \<longrightarrow>
        set (dismissedTips (prefs (markAsSeen p m))) = set (dismissedTips (prefs m)))
   \<and> dismissedTips (prefs (markAsSeen p (markAsSeen p m))) = dismissedTips (prefs (markAsSeen p m))
   \<and> dontShowTips (prefs (markAsSeen p m)) = dontShowTips (prefs m)
   \<and> queuedTips (markAsSeen p m) = queuedTips m"
proof -
  have idem: "dismissedTips (prefs (markAsSeen p (markAsSeen p m))) = dismissedTips (prefs (markAsSeen p m))"
  proof -
    let ?ys = "Set_add (new_Set (dismissedTips (prefs m))) p"
    have d: "distinct ?ys" by (simp add: distinct_Set_add distinct_new_Set)
    have step_in: "foldl Set_add acc (zs @ ws) = foldl Set_add (acc @ zs) ws"
      if "distinct (acc @ zs)" for acc zs ws :: "string list"
      using that by (induction zs arbitrary: acc) (auto simp: Set_add_def)
    have "new_Set ?ys = ?ys"
      using step_in [of "[]" ?ys "[]"] d by (simp add: new_Set_def)
    moreover have "Set_add ?ys p = ?ys"
      by (simp add: Set_add_def)
    ultimately show ?thesis
      by (simp add: markAsSeen_def Let_def)
  qed
  show ?thesis
    using idem by (auto simp: dismissed_markAsSeen) (simp_all add: markAsSeen_def Let_def)
qed

theorem markAsSeen_monotone_idempotent_witness:
  "set (dismissedTips (prefs (markAsSeen ''b''
      (init \<lparr>dontShowTips = False, dismissedTips = [''a'', ''b'', ''a'']\<rparr>)))) = {''a'', ''b''}
   \<and> dismissedTips (prefs (markAsSeen ''b''
      (init \<lparr>dontShowTips = False, dismissedTips = [''a'', ''b'', ''a'']\<rparr>))) = [''a'', ''b'']"
  using markAsSeen_monotone_idempotent [of "''b''" "init \<lparr>dontShowTips = False, dismissedTips = [''a'', ''b'', ''a'']\<rparr>"]
  by (simp add: markAsSeen_def init_def new_Set_def Set_add_def)

subsection \<open>The queue invariant\<close>

lemma queue_inv_init: "queue_inv (init p)"
  by (simp add: queue_inv_def init_def)

lemma queue_inv_queueTip: "queue_inv m \<Longrightarrow> queue_inv (queueTip guard env el p opts m)"
  unfolding queue_inv_def queueTip_def showTip_op_def Let_def
  by auto

lemma queue_inv_onClose: "queue_inv m \<Longrightarrow> queue_inv (onClose_cb k b m)"
  unfolding queue_inv_def onClose_cb_def markAsSeen_def dontShowTips_op_def Let_def
  by auto

lemma open_is_last:
  assumes "list_all disposed (butlast ps)" "k < length ps" "\<not> disposed (ps ! k)"
  shows "\<exists>qs q. ps = qs @ [q] \<and> k = length qs \<and> \<not> disposed q \<and> list_all disposed qs"
proof -
  from assms(2) have ne: "ps \<noteq> []" by auto
  then have eq: "ps = butlast ps @ [last ps]" by simp
  have "\<not> k < length (butlast ps)"
  proof
    assume lt: "k < length (butlast ps)"
    then have "disposed (butlast ps ! k)" using assms(1) by (simp add: list_all_length)
    moreover have "butlast ps ! k = ps ! k" using lt by (simp add: nth_butlast)
    ultimately show False using assms(3) by simp
  qed
  then have k: "k = length (butlast ps)" using assms(2) by simp
  then have "ps ! k = last ps" using ne by (simp add: last_conv_nth)
  then show ?thesis using eq k assms(1,3) by metis
qed

lemma queue_inv_ctl_dispose: "queue_inv m \<Longrightarrow> queue_inv (ctl_dispose k m)"
proof (cases "isOpen m k")
  case False
  assume "queue_inv m"
  then show ?thesis using False by (simp add: ctl_dispose_def)
next
  case True
  assume i: "queue_inv m"
  then have "list_all disposed (butlast (popups m))" by (simp add: queue_inv_def)
  with True obtain qs q where ps: "popups m = qs @ [q]" and k: "k = length qs"
      and q: "\<not> disposed q" and qs: "list_all disposed qs"
    unfolding isOpen_def using open_is_last by blast
  show ?thesis
  proof (cases "queuedTips m")
    case Nil
    then show ?thesis using i True ps k q qs
      unfolding queue_inv_def ctl_dispose_def onDispose_cb_def showNextQueuedTip_def showTip_op_def Let_def
      by (auto split: option.splits)
  next
    case (Cons t ts)
    then show ?thesis using i True ps k q qs
      unfolding queue_inv_def ctl_dispose_def onDispose_cb_def showNextQueuedTip_def showTip_op_def Let_def
      by (cases ts) (auto simp: butlast_append split: option.splits)
  qed
qed

lemma queue_inv_step: "queue_inv m \<Longrightarrow> queue_inv (step guard e m)"
  by (cases e)
     (simp_all add: showTip_def attachTip_def close_popup_def queue_inv_queueTip queue_inv_onClose
        queue_inv_ctl_dispose)

lemma queue_inv_run: "queue_inv m \<Longrightarrow> queue_inv (run guard es m)"
  by (induction es arbitrary: m) (simp_all add: queue_inv_step)

lemma filter_open_butlast:
  "list_all disposed (butlast ps) \<Longrightarrow>
   filter (\<lambda>q. \<not> disposed q) ps = (if ps \<noteq> [] \<and> \<not> disposed (last ps) then [last ps] else [])"
proof (cases ps rule: rev_cases)
  case Nil
  then show ?thesis by simp
next
  case (snoc qs q)
  assume "list_all disposed (butlast ps)"
  then have "filter (\<lambda>q. \<not> disposed q) qs = []" using snoc by (simp add: list_all_iff)
  then show ?thesis using snoc by simp
qed

subsection \<open>The checks of \<open>_queueTip\<close>\<close>

text \<open>
  When one of the four checks answers yes, \<open>_queueTip\<close> returns at once: the queue, the
  preference and the popups are what they were, for \<open>showTip\<close> and for \<open>attachTip\<close>.
\<close>

lemma queueTip_gated:
  "\<not> survey env \<or> narrowScreen env \<or> dontShowTips (prefs m) \<or> hasSeenTip guard m p
   \<Longrightarrow> showTip guard env el p opts m = m \<and> attachTip guard env p opts el m = m"
  by (simp add: showTip_def attachTip_def queueTip_def)

lemma hasSeenTip_iff:
  "hasSeenTip g m p = (p \<in> set (filter g (dismissedTips (prefs m))))"
  by (simp add: hasSeenTip_def Set_has_def dismissedTipsSet_def set_new_Set)

lemmas tip_defs = showTip_def attachTip_def queueTip_def init_def noPrefs_def okSurroundings_def
  hasSeenTip_iff showTip_op_def Let_def noOptions_def anyPrompt_def isOpen_def onClose_cb_def
  markAsSeen_def dontShowTips_op_def close_popup_def ctl_dispose_def onDispose_cb_def
  showNextQueuedTip_def new_Set_def Set_add_def

text \<open>
  C3. Tip visibility is gated by the preferences: a \<open>showTip\<close> or \<open>attachTip\<close> for a
  prompt leaves queue and popups alone when tips are switched off, the prompt was dismissed,
  surveying is disabled or the screen is narrow (lemma \<open>queueTip_gated\<close>); in particular a
  tip dismissed in the past is never to be shown again. The code checks when a tip is asked
  for, and only then. In the run below the same tip is asked for on two elements and the
  first popup is closed with "Got it", which marks the tip as seen: \<open>hasSeenTip\<close> answers
  yes and one popup has been shown. The disposal of that popup then opens a second popup for
  the same tip, because \<open>_showNextQueuedTip\<close> does not look at the preference.
\<close>

theorem dismissed_tip_shown_again:
  "hasSeenTip anyPrompt (run anyPrompt sameTipTwice (init noPrefs)) ''a''
   \<and> map (prompt \<circ> tip) (popups (run anyPrompt sameTipTwice (init noPrefs))) = [''a'']
   \<and> map (prompt \<circ> tip) (popups (step anyPrompt (CtlDispose 0) (run anyPrompt sameTipTwice (init noPrefs))))
        = [''a'', ''a'']
   \<and> map (prompt \<circ> tip) (openPopups (step anyPrompt (CtlDispose 0) (run anyPrompt sameTipTwice (init noPrefs))))
        = [''a'']"
  by (simp add: tip_defs sameTipTwice_def openPopups_def)

subsection \<open>Order of the popups\<close>



text \<open>
  C5, as the code has it. The array \<open>_queuedTips\<close> is not bounded by one: it holds the
  tip on the screen followed by every tip that waits. What is single is the popup: in every
  reachable state at most one popup is open, and while the queue is non-empty that popup
  shows the head of the queue.
\<close>

theorem at_most_one_open_popup:
  "length (openPopups (run guard es (init p0))) \<le> 1
   \<and> (queuedTips (run guard es (init p0)) \<noteq> [] \<longrightarrow>
        map tip (openPopups (run guard es (init p0))) = [hd (queuedTips (run guard es (init p0)))])"
proof -
  have i: "queue_inv (run guard es (init p0))" by (simp add: queue_inv_run queue_inv_init)
  then have "list_all disposed (butlast (popups (run guard es (init p0))))" by (simp add: queue_inv_def)
  from filter_open_butlast [OF this] i show ?thesis
    by (auto simp: openPopups_def queue_inv_def)
qed

theorem at_most_one_open_popup_witness:
  "length (openPopups (run anyPrompt threeTips (init noPrefs))) \<le> 1
   \<and> map prompt (queuedTips (run anyPrompt threeTips (init noPrefs))) = [''b'', ''c'']
   \<and> map (prompt \<circ> tip) (openPopups (run anyPrompt threeTips (init noPrefs))) = [''b'']"
proof -
  have e: "map prompt (queuedTips (run anyPrompt threeTips (init noPrefs))) = [''b'', ''c'']"
    by (simp add: tip_defs threeTips_def)
  then have ne: "queuedTips (run anyPrompt threeTips (init noPrefs)) \<noteq> []" by auto
  have hdq: "prompt (hd (queuedTips (run anyPrompt threeTips (init noPrefs)))) = ''b''"
    using e by (cases "queuedTips (run anyPrompt threeTips (init noPrefs))") auto
  from at_most_one_open_popup [of anyPrompt threeTips noPrefs] ne
  have "length (openPopups (run anyPrompt threeTips (init noPrefs))) \<le> 1"
    and "map tip (openPopups (run anyPrompt threeTips (init noPrefs))) = [hd (queuedTips (run anyPrompt threeTips (init noPrefs)))]"
    by simp_all
  then show ?thesis using e hdq
    by (metis (no_types, lifting) list.simps(8,9) map_map)
qed

text \<open>
  C5, as stated ("the pending queue contains at most a single item"), fails: after two
  requests that pass the checks the queue holds two tips.
\<close>

theorem queue_longer_than_one:
  "\<not> length (queuedTips (run anyPrompt
        [ShowTip okSurroundings 0 ''a'' noOptions, ShowTip okSurroundings 1 ''b'' noOptions]
        (init noPrefs))) \<le> 1"
  by (simp add: tip_defs)

subsection \<open>"Don't show tips"\<close>

lemma map_tip_dispose: "map tip (ps[k := (ps ! k)\<lparr>disposed := True\<rparr>]) = map tip ps"
  by (induction ps arbitrary: k) (auto split: nat.splits)

lemma silenced_step:
  "silenced m \<Longrightarrow> silenced (step guard e m) \<and> map tip (popups (step guard e m)) = map tip (popups m)"
  by (cases e)
     (auto simp: silenced_def showTip_def attachTip_def queueTip_def onClose_cb_def markAsSeen_def
        dontShowTips_op_def close_popup_def ctl_dispose_def onDispose_cb_def showNextQueuedTip_def
        Let_def map_tip_dispose split: option.splits)

lemma silenced_run:
  "silenced m \<Longrightarrow> silenced (run guard es m) \<and> map tip (popups (run guard es m)) = map tip (popups m)"
proof (induction es arbitrary: m)
  case Nil
  then show ?case by simp
next
  case (Cons e es)
  from silenced_step [OF Cons.prems, of guard e] Cons.IH [of "step guard e m"]
  show ?case by simp
qed

text \<open>
  C8. When the popup of a shown tip reports \<open>onClose\<close> with the "Don't show tips" box
  checked, the preference \<open>dontShowTips\<close> becomes true and the queue becomes empty; and
  whatever happens afterwards, no further popup is created (the tips that have had a popup
  are the same as before) and the queue stays empty. So none of the tips that waited at that
  moment is ever shown.
\<close>

theorem dontShowTips_silences:
  "isOpen m k \<Longrightarrow>
     dontShowTips (prefs (step guard (OnClose k True) m))
     \<and> queuedTips (step guard (OnClose k True) m) = []
     \<and> map tip (popups (run guard es (step guard (OnClose k True) m))) = map tip (popups m)
     \<and> queuedTips (run guard es (step guard (OnClose k True) m)) = []"
proof -
  assume o: "isOpen m k"
  have s: "silenced (step guard (OnClose k True) m)"
    using o by (simp add: silenced_def onClose_cb_def markAsSeen_def dontShowTips_op_def Let_def)
  have p: "popups (step guard (OnClose k True) m) = popups m"
    using o by (simp add: onClose_cb_def markAsSeen_def dontShowTips_op_def Let_def)
  from silenced_run [OF s, of guard es] s p show ?thesis by (simp add: silenced_def)
qed

theorem dontShowTips_silences_witness:
  "isOpen twoWaiting 0
   \<and> map prompt (queuedTips twoWaiting) = [''a'', ''b'', ''c'']
   \<and> dontShowTips (prefs (step anyPrompt (OnClose 0 True) twoWaiting))
   \<and> queuedTips (step anyPrompt (OnClose 0 True) twoWaiting) = []
   \<and> map (prompt \<circ> tip) (popups (run anyPrompt [CtlDispose 0, ShowTip okSurroundings 3 ''d'' noOptions]
        (step anyPrompt (OnClose 0 True) twoWaiting))) = [''a'']"
proof -
  have o: "isOpen twoWaiting 0" and q: "map prompt (queuedTips twoWaiting) = [''a'', ''b'', ''c'']"
    and p: "map (prompt \<circ> tip) (popups twoWaiting) = [''a'']"
    by (simp_all add: twoWaiting_def threeTips_def tip_defs)
  from dontShowTips_silences [OF o, of anyPrompt "[CtlDispose 0, ShowTip okSurroundings 3 ''d'' noOptions]"]
  have "dontShowTips (prefs (step anyPrompt (OnClose 0 True) twoWaiting))"
    and "queuedTips (step anyPrompt (OnClose 0 True) twoWaiting) = []"
    and "map tip (popups (run anyPrompt [CtlDispose 0, ShowTip okSurroundings 3 ''d'' noOptions]
        (step anyPrompt (OnClose 0 True) twoWaiting))) = map tip (popups twoWaiting)"
    by blast+
  then show ?thesis using o q p by (metis map_map)
qed

section \<open>Properties of the REST client\<close>

lemma snd_await: "(\<And>x w. snd (k x w) = w) \<Longrightarrow> snd (await r k) = snd r"
  by (cases r) (auto simp: await_def split: sum.splits)

lemma snd_void: "snd (void r) = snd r"
  by (simp add: void_def snd_await resolve_def)

lemma fst_void: "fst (void r) = map_sum id (\<lambda>_. ()) (fst r)"
  by (cases r) (auto simp: void_def await_def resolve_def split: sum.splits)

lemma Number_toString_42: "Number_toString 42 = ''42''"
  by (simp add: Number_toString_def digit_def)

lemma getBaseUrl_sample: "getBaseUrl sampleEnv sampleAPI = ''http://host''"
  by (simp add: getBaseUrl_def UserAPIImpl_url_def urlWithOrg_def sampleEnv_def sampleAPI_def
      stripTrailingSlash_def)

subsection \<open>Request shapes\<close>

text \<open>
  C1. For every \<open>docId\<close> and \<open>name\<close>, \<open>renameDoc(docId, name)\<close> issues exactly one
  request: a \<open>PATCH\<close> to the base URL followed by \<open>/api/docs/\<close> and the \<open>docId\<close>, whose
  body is \<open>JSON.stringify({name})\<close>. The log grows by this one entry and by nothing else.
\<close>

theorem renameDoc_issues_patch:
  "snd (renameDoc env api docId name w) =
     w @ [Request (getBaseUrl env api @ ''/api/docs/'' @ docId)
            \<lparr>http_method = Some ''PATCH'',
             body = Some (JSON_stringify (JObj [(''name'', JStr name)])),
             init_headers = None, credentials = None\<rparr>]"
  by (simp add: renameDoc_def updateDoc_def snd_void BaseAPI_request_def getBaseUrl_def noInit_def)

theorem renameDoc_issues_patch_witness:
  "snd (renameDoc sampleEnv sampleAPI ''doc1'' ''Budget'' []) =
     [Request ''http://host/api/docs/doc1''
            \<lparr>http_method = Some ''PATCH'',
             body = Some (JSON_stringify (JObj [(''name'', JStr ''Budget'')])),
             init_headers = None, credentials = None\<rparr>]"
  using renameDoc_issues_patch [of sampleEnv sampleAPI "''doc1''" "''Budget''" "[]"]
  by (simp add: getBaseUrl_sample)

text \<open>
  C2. The three methods named by the spec map onto its three endpoints, for every instance,
  identifier and payload: \<open>getOrg\<close> issues one \<open>GET\<close> to \<open>/api/orgs/{orgId}\<close>,
  \<open>updateDoc\<close> one \<open>PATCH\<close> to \<open>/api/docs/{docId}\<close> with the JSON encoding of the
  properties, \<open>applyUserActions\<close> one \<open>POST\<close> to \<open>/api/docs/{docId}/apply\<close> with the
  JSON encoding of the action list; each below the base URL.
\<close>

theorem endpoints_of_getOrg_updateDoc_applyUserActions:
  "snd (getOrg env api orgId w) =
     w @ [RequestJson (getBaseUrl env api @ ''/api/orgs/'' @ orgIdText orgId)
            \<lparr>http_method = Some ''GET'', body = None, init_headers = None, credentials = None\<rparr>]
   \<and> snd (updateDoc env api docId props w) =
     w @ [Request (getBaseUrl env api @ ''/api/docs/'' @ docId)
            \<lparr>http_method = Some ''PATCH'', body = Some (JSON_stringify props),
             init_headers = None, credentials = None\<rparr>]
   \<and> snd (applyUserActions env api docId actions w) =
     w @ [RequestJson (getBaseUrl env api @ ''/api/docs/'' @ docId @ ''/apply'')
            \<lparr>http_method = Some ''POST'', body = Some (JSON_stringify (JArr actions)),
             init_headers = None, credentials = None\<rparr>]"
  by (simp add: getOrg_def updateDoc_def applyUserActions_def snd_void BaseAPI_request_def
      BaseAPI_requestJson_def getBaseUrl_def noInit_def)

theorem endpoints_of_getOrg_updateDoc_applyUserActions_witness:
  "snd (getOrg sampleEnv sampleAPI (OrgNumber 42) []) =
     [RequestJson ''http://host/api/orgs/42''
            \<lparr>http_method = Some ''GET'', body = None, init_headers = None, credentials = None\<rparr>]
   \<and> snd (updateDoc sampleEnv sampleAPI ''doc1'' (JObj [(''isPinned'', JBool True)]) []) =
     [Request ''http://host/api/docs/doc1''
            \<lparr>http_method = Some ''PATCH'', body = Some (JSON_stringify (JObj [(''isPinned'', JBool True)])),
             init_headers = None, credentials = None\<rparr>]
   \<and> snd (applyUserActions sampleEnv sampleAPI ''doc1'' [JArr [JStr ''AddTable'', JStr ''T'']] []) =
     [RequestJson ''http://host/api/docs/doc1/apply''
            \<lparr>http_method = Some ''POST'', body = Some (JSON_stringify (JArr [JArr [JStr ''AddTable'', JStr ''T'']])),
             init_headers = None, credentials = None\<rparr>]"
  using endpoints_of_getOrg_updateDoc_applyUserActions
    [of sampleEnv sampleAPI "OrgNumber 42" "[]" "''doc1''" "JObj [(''isPinned'', JBool True)]"
        "[JArr [JStr ''AddTable'', JStr ''T'']]"]
  by (simp add: getBaseUrl_sample Number_toString_42)

subsection \<open>Failures\<close>

text \<open>
  C6. When the response to \<open>downloadDoc(docId)\<close> is not ok, the operation rejects with an
  \<open>Error\<close> whose message is the text of the response body, and it has issued exactly one
  request: nothing is retried. (The body text is what \<open>result.text()\<close> resolves with.)
\<close>

theorem downloadDoc_rejects_with_body:
  "transport env w
     (Request (url wk @ ''/download?doc='' @ docId @ (if template then ''&template=1'' else ''''))
        \<lparr>http_method = Some ''GET'', body = None, init_headers = headers (workerOptions wk), credentials = None\<rparr>)
     = Inr resp
   \<Longrightarrow> \<not> ok resp \<Longrightarrow> body_text resp = Inr t
   \<Longrightarrow> downloadDoc env wk docId template w =
       (Inl (Error t),
        w @ [Request (url wk @ ''/download?doc='' @ docId @ (if template then ''&template=1'' else ''''))
               \<lparr>http_method = Some ''GET'', body = None, init_headers = headers (workerOptions wk),
                credentials = None\<rparr>])"
  by (simp add: downloadDoc_def Let_def BaseAPI_request_def await_def reject_def noInit_def)

theorem downloadDoc_rejects_with_body_witness:
  "downloadDoc failingEnv sampleWorker ''doc1'' False [] =
       (Inl (Error ''document not found''),
        [Request ''http://worker/download?doc=doc1''
               \<lparr>http_method = Some ''GET'', body = None, init_headers = None, credentials = None\<rparr>])"
proof -
  have a: "transport failingEnv []
     (Request (url sampleWorker @ ''/download?doc='' @ ''doc1'' @ (if False then ''&template=1'' else ''''))
        \<lparr>http_method = Some ''GET'', body = None, init_headers = headers (workerOptions sampleWorker), credentials = None\<rparr>)
     = Inr notFound"
    by (simp add: failingEnv_def sampleEnv_def)
  have b: "\<not> ok notFound" and c: "body_text notFound = Inr ''document not found''"
    by (simp_all add: notFound_def)
  from downloadDoc_rejects_with_body [OF a b c] show ?thesis
    by (simp add: sampleWorker_def noIOptions_def)
qed

subsection \<open>\<open>forRemoved\<close>\<close>

text \<open>
  C9, as the code has it. \<open>forRemoved()\<close> returns a new \<open>UserAPIImpl\<close>: a fresh instance
  with the same home URL, whose options object is a fresh copy of the caller's options in
  which \<open>extraParameters\<close> is set to the map holding \<open>showRemoved = 1\<close> alone. Extra
  parameters that the caller's options had already are replaced by it, not kept; the other
  options are copied. Every object that existed before is left as it was, the original
  instance and its options among them.
\<close>

theorem forRemoved_new_instance:
  "this < length (apiObjects st) \<Longrightarrow> options_field (apiObjects st ! this) < length (optionsObjects st) \<Longrightarrow>
     \<exists>new st'. forRemoved this st = Some (new, st')
       \<and> new = length (apiObjects st)
       \<and> options_field (apiObjects st' ! new) = length (optionsObjects st)
       \<and> homeUrl (instance_at st' new) = homeUrl (instance_at st this)
       \<and> apiOptions (instance_at st' new) =
           (apiOptions (instance_at st this))\<lparr>extraParameters := Some [(''showRemoved'', ''1'')]\<rparr>
       \<and> take (length (apiObjects st)) (apiObjects st') = apiObjects st
       \<and> take (length (optionsObjects st)) (optionsObjects st') = optionsObjects st
       \<and> instance_at st' this = instance_at st this"
  by (simp add: forRemoved_def Let_def spread_with_extraParameters_def new_UserAPIImpl_def
      instance_at_def nth_append)

theorem forRemoved_new_instance_witness:
  "forRemoved 0 sampleStore =
     Some (1, \<lparr>optionsObjects =
                 [\<lparr>headers = Some [(''Authorization'', ''Bearer k'')],
                   extraParameters = Some [(''x'', ''y'')]\<rparr>,
                  \<lparr>headers = Some [(''Authorization'', ''Bearer k'')],
                   extraParameters = Some [(''showRemoved'', ''1'')]\<rparr>],
               apiObjects =
                 [\<lparr>homeUrl_field = ''http://host'', options_field = 0\<rparr>,
                  \<lparr>homeUrl_field = ''http://host'', options_field = 1\<rparr>]\<rparr>)"
proof -
  have a: "0 < length (apiObjects sampleStore)"
    and b: "options_field (apiObjects sampleStore ! 0) < length (optionsObjects sampleStore)"
    by (simp_all add: sampleStore_def)
  from forRemoved_new_instance [OF a b] obtain new st' where "forRemoved 0 sampleStore = Some (new, st')"
    by blast
  then show ?thesis
    by (simp add: forRemoved_def Let_def spread_with_extraParameters_def new_UserAPIImpl_def sampleStore_def)
qed

text \<open>
  C9, as stated ("the caller's options extended by the extra query parameter
  showRemoved=1"), fails for a caller whose options carry extra parameters already: the
  caller below has \<open>x = y\<close>, and the instance that \<open>forRemoved\<close> returns has
  \<open>showRemoved = 1\<close> and no \<open>x = y\<close>.
\<close>

theorem forRemoved_drops_extraParameters:
  "extraParameters (apiOptions (instance_at sampleStore 0)) = Some [(''x'', ''y'')]
   \<and> map_option (\<lambda>(new, st'). extraParameters (apiOptions (instance_at st' new)))
        (forRemoved 0 sampleStore) = Some (Some [(''showRemoved'', ''1'')])"
  by (simp add: forRemoved_def Let_def spread_with_extraParameters_def new_UserAPIImpl_def
      sampleStore_def instance_at_def)

subsection \<open>One request per call\<close>

lemmas userAPI_defs = getSessionActive_def setSessionActive_def getSessionAll_def getOrgs_def
  getWorkspace_def getOrg_def getOrgWorkspaces_def getDoc_def newOrg_def newWorkspace_def newDoc_def
  newUnsavedDoc_def renameOrg_def renameWorkspace_def renameDoc_def updateDoc_def deleteOrg_def
  deleteWorkspace_def softDeleteWorkspace_def undeleteWorkspace_def deleteDoc_def softDeleteDoc_def
  undeleteDoc_def updateOrgPermissions_def updateWorkspacePermissions_def updateDocPermissions_def
  getOrgAccess_def getWorkspaceAccess_def getDocAccess_def pinDoc_def unpinDoc_def moveDoc_def
  getUserProfile_def updateUserName_def getWorker_def getWorkerAPI_def fetchApiKey_def
  createApiKey_def deleteApiKey_def getTable_def applyUserActions_def
  deleteUser_def getDocAPI_def new_DocAPIImpl_def

lemmas docWorkerAPI_defs = importDocToWorkspace_def downloadDoc_def

lemmas docAPI_defs = getRows_def updateRows_def addRows_def DocAPI_replace_def getSnapshots_def
  forceReload_def compareState_def

lemmas BaseAPI_defs = BaseAPI_request_def BaseAPI_requestJson_def BaseAPI_fetch_def
  BaseAPI_requestAxios_def BaseAPI_newFormData_def

lemma snd_resolve: "snd (resolve x w) = w"
  by (simp add: resolve_def)

lemma snd_reject: "snd (reject e w) = w"
  by (simp add: reject_def)

lemma UserAPIImpl_url_transport: "UserAPIImpl_url (env\<lparr>transport := tr\<rparr>) api = UserAPIImpl_url env api"
  by (simp add: UserAPIImpl_url_def urlWithOrg_def)

lemma FormData_append_transport:
  "FormData_append (env\<lparr>transport := tr\<rparr>) formData entry = FormData_append env formData entry"
  by (simp add: FormData_append_def)

lemma snd_importUnsavedDoc_throws:
  "throwsBeforeRequest env (OnUserAPI api (ImportUnsavedDoc material filename timezone progress))
   \<Longrightarrow> snd (importUnsavedDoc (env\<lparr>transport := tr\<rparr>) api material filename timezone progress w) = w"
  by (auto simp: importUnsavedDoc_def FormData_append_transport snd_reject isl_def
      split: sum.splits option.splits)

lemma snd_importUnsavedDoc_sends:
  assumes "\<not> throwsBeforeRequest env (OnUserAPI api (ImportUnsavedDoc material filename timezone progress))"
  shows "\<exists>formData. \<forall>tr w.
           snd (importUnsavedDoc (env\<lparr>transport := tr\<rparr>) api material filename timezone progress w) =
             w @ [RequestAxios (UserAPIImpl_url env api @ ''/api/docs'')
                    \<lparr>ax_headers = headers (apiOptions api), ax_method = Some ''POST'',
                     ax_data = Some formData, onUploadProgress = progress\<rparr>]"
proof -
  from assms obtain f1 where f1: "FormData_append env BaseAPI_newFormData (FileEntry ''upload'' material filename) = Inr f1"
    by (auto split: sum.splits)
  from assms f1 obtain f2 where f2:
    "(case truthy timezone of
        Some tz \<Rightarrow> FormData_append env f1 (FieldEntry ''timezone'' tz)
      | None \<Rightarrow> Inr f1) = Inr f2"
    by (cases "truthy timezone";
        cases "FormData_append env f1 (FieldEntry ''timezone'' (the (truthy timezone)))")
       (auto simp: isl_def)
  have "snd (importUnsavedDoc (env\<lparr>transport := tr\<rparr>) api material filename timezone progress w) =
             w @ [RequestAxios (UserAPIImpl_url env api @ ''/api/docs'')
                    \<lparr>ax_headers = headers (apiOptions api), ax_method = Some ''POST'',
                     ax_data = Some f2, onUploadProgress = progress\<rparr>]" for tr w
    using f1 f2
    by (cases "truthy timezone")
       (simp_all add: importUnsavedDoc_def FormData_append_transport UserAPIImpl_url_transport
          BaseAPI_requestAxios_def snd_await snd_resolve)
  then show ?thesis by blast
qed

lemma userAPI_one_request:
  "if throwsBeforeRequest env (OnUserAPI api c)
   then \<forall>tr w. userAPI_log (env\<lparr>transport := tr\<rparr>) api c w = w
   else \<exists>r. (\<forall>tr w. userAPI_log (env\<lparr>transport := tr\<rparr>) api c w = w @ [r])
        \<and> isFormBody (call_body r) = sendsForm (OnUserAPI api c)
        \<and> (sendsForm (OnUserAPI api c)
            \<or> call_body r = map_option JSON_stringify (jsonArgument (OnUserAPI api c)))"
proof (cases c)
  case (ImportUnsavedDoc material filename timezone progress)
  show ?thesis
  proof (cases "throwsBeforeRequest env (OnUserAPI api c)")
    case True
    then show ?thesis using ImportUnsavedDoc snd_importUnsavedDoc_throws [of env api material filename timezone progress]
      by (simp del: throwsBeforeRequest.simps)
  next
    case False
    with ImportUnsavedDoc snd_importUnsavedDoc_sends [of env api material filename timezone progress]
    obtain formData where "\<forall>tr w.
           snd (importUnsavedDoc (env\<lparr>transport := tr\<rparr>) api material filename timezone progress w) =
             w @ [RequestAxios (UserAPIImpl_url env api @ ''/api/docs'')
                    \<lparr>ax_headers = headers (apiOptions api), ax_method = Some ''POST'',
                     ax_data = Some formData, onUploadProgress = progress\<rparr>]"
      by blast
    then show ?thesis using ImportUnsavedDoc False
      by (simp del: throwsBeforeRequest.simps)
  qed
qed (simp_all add: userAPI_defs docAPI_defs BaseAPI_defs snd_void snd_await snd_resolve snd_reject
        UserAPIImpl_url_transport noInit_def Let_def
        split: sum.splits jsval.splits split del: if_split)

lemma docAPI_one_request:
  "\<exists>r. (\<forall>tr w. docAPI_log (env\<lparr>transport := tr\<rparr>) doc c w = w @ [r])
        \<and> isFormBody (call_body r) = sendsForm (OnDocAPI doc c)
        \<and> (sendsForm (OnDocAPI doc c)
            \<or> call_body r = map_option JSON_stringify (jsonArgument (OnDocAPI doc c)))"
  by (cases c)
     (simp_all add: docAPI_defs BaseAPI_defs snd_void snd_await snd_resolve snd_reject noInit_def)

lemma snd_downloadDoc:
  "snd (downloadDoc env wk d template w) =
     w @ [Request (url wk @ ''/download?doc='' @ d @ (if template then ''&template=1'' else ''''))
            (noInit\<lparr>init_headers := headers (workerOptions wk), http_method := Some ''GET''\<rparr>)]"
proof -
  have k: "snd ((\<lambda>result. if \<not> ok result
              then (case body_text result of Inl e \<Rightarrow> reject e | Inr t \<Rightarrow> reject (Error t))
              else resolve result) x v) = v" for x :: Response and v
    by (simp add: snd_resolve snd_reject split: sum.splits)
  show ?thesis
    unfolding downloadDoc_def Let_def
    by (subst snd_await) (use k in \<open>simp_all add: BaseAPI_request_def\<close>)
qed

lemma snd_uploadId: "snd ((case getProp json ''uploadId'' of Inl e \<Rightarrow> reject e | Inr v \<Rightarrow> resolve v) w) = w"
  by (simp add: snd_resolve snd_reject split: sum.splits)

lemma docWorkerAPI_one_request:
  "if throwsBeforeRequest env (OnDocWorkerAPI wk c)
   then \<forall>tr w. docWorkerAPI_log (env\<lparr>transport := tr\<rparr>) wk c w = w
   else \<exists>r. (\<forall>tr w. docWorkerAPI_log (env\<lparr>transport := tr\<rparr>) wk c w = w @ [r])
        \<and> isFormBody (call_body r) = sendsForm (OnDocWorkerAPI wk c)
        \<and> (sendsForm (OnDocWorkerAPI wk c)
            \<or> call_body r = map_option JSON_stringify (jsonArgument (OnDocWorkerAPI wk c)))"
proof (cases c)
  case (CopyDoc d template name)
  show ?thesis
  proof (cases "throwsBeforeRequest env (OnDocWorkerAPI wk c)")
    case True
    then show ?thesis using CopyDoc
      by (simp add: copyDoc_def Let_def snd_reject split del: if_split)
  next
    case False
    then obtain href where "URL_href env (url wk @ ''/copy?doc='' @ d)
            ((if template then [(''template'', ''1'')] else [])
             @ (case truthy name of Some n \<Rightarrow> [(''name'', n)] | None \<Rightarrow> [])) = Some href"
      using CopyDoc by auto
    then show ?thesis using CopyDoc False
      by (simp add: copyDoc_def Let_def BaseAPI_defs snd_await snd_uploadId noInit_def
          split del: if_split)
  qed
next
  case (Upload material filename)
  show ?thesis
  proof (cases "FormData_append env BaseAPI_newFormData (FileEntry ''upload'' material filename)")
    case (Inl e)
    then show ?thesis using Upload
      by (simp add: upload_def FormData_append_transport snd_reject)
  next
    case (Inr formData)
    then show ?thesis using Upload
      by (simp add: upload_def FormData_append_transport BaseAPI_requestJson_def snd_await
          snd_uploadId noInit_def)
  qed
next
  case (DownloadDoc d template)
  then show ?thesis
    by (simp add: snd_downloadDoc noInit_def split del: if_split)
qed (simp_all add: docWorkerAPI_defs BaseAPI_defs snd_void snd_await snd_resolve snd_reject noInit_def
        Let_def split: sum.splits split del: if_split)

text \<open>
  C7, as the code has it. Every call of a request-issuing method of \<open>UserAPIImpl\<close>,
  \<open>DocWorkerAPIImpl\<close> or \<open>DocAPIImpl\<close> hands exactly one request to \<open>BaseAPI\<close>,
  unless platform code throws before the request is reached, in which case it issues none:
  \<open>new URL\<close> in \<open>copyDoc\<close>, \<open>formData.append\<close> in \<open>upload\<close> and
  \<open>importUnsavedDoc\<close>. The request is the same whatever the log holds and whatever the
  network has answered or will answer: nothing is cached, retried or coordinated. Its body
  is a form for \<open>upload\<close> and \<open>importUnsavedDoc\<close> and for no other method; for every
  other method it is absent or the text that \<open>JSON.stringify\<close> gives for the value
  \<open>jsonArgument\<close>, which is built from the arguments of the call alone.
\<close>

theorem one_request_per_call:
  "if throwsBeforeRequest env c
   then \<forall>tr w. issued (env\<lparr>transport := tr\<rparr>) c w = w
   else \<exists>r. (\<forall>tr w. issued (env\<lparr>transport := tr\<rparr>) c w = w @ [r])
        \<and> isFormBody (call_body r) = sendsForm c
        \<and> (sendsForm c \<or> call_body r = map_option JSON_stringify (jsonArgument c))"
proof (cases c)
  case (OnUserAPI api u)
  then show ?thesis using userAPI_one_request [of env api u]
    by (simp del: throwsBeforeRequest.simps sendsForm.simps jsonArgument.simps)
next
  case (OnDocWorkerAPI wk d)
  then show ?thesis using docWorkerAPI_one_request [of env wk d]
    by (simp del: throwsBeforeRequest.simps sendsForm.simps jsonArgument.simps)
next
  case (OnDocAPI doc d)
  then show ?thesis using docAPI_one_request [of env doc d] by simp
qed

lemma transport_same: "sampleEnv\<lparr>transport := transport sampleEnv\<rparr> = sampleEnv"
  by simp

theorem one_request_per_call_witness:
  "throwsBeforeRequest sampleEnv (OnDocWorkerAPI relativeWorker (CopyDoc ''doc1'' False None))
   \<and> issued sampleEnv (OnDocWorkerAPI relativeWorker (CopyDoc ''doc1'' False None)) [] = []
   \<and> throwsBeforeRequest sampleEnv (OnDocWorkerAPI sampleWorker (Upload (UploadString ''a,b'') (Some ''t.csv'')))
   \<and> issued sampleEnv (OnDocWorkerAPI sampleWorker (Upload (UploadString ''a,b'') (Some ''t.csv''))) [] = []
   \<and> issued sampleEnv (OnDocWorkerAPI sampleWorker (CopyDoc ''doc1'' True None)) [] =
       [RequestJson ''http://worker/copy?doc=doc1&template=1''
          \<lparr>http_method = Some ''POST'', body = None, init_headers = None, credentials = None\<rparr>]
   \<and> issued sampleEnv (OnUserAPI sampleAPI (MoveDoc ''doc1'' 42)) [] =
       [Request ''http://host/api/docs/doc1/move''
          \<lparr>http_method = Some ''PATCH'', body = Some (JSON_stringify (JObj [(''workspace'', JNum 42)])),
           init_headers = None, credentials = None\<rparr>]"
proof -
  have f1: "throwsBeforeRequest sampleEnv (OnDocWorkerAPI relativeWorker (CopyDoc ''doc1'' False None))"
    by (simp add: sampleEnv_def sampleHref_def relativeWorker_def)
  from one_request_per_call [of sampleEnv "OnDocWorkerAPI relativeWorker (CopyDoc ''doc1'' False None)"] f1
  have "\<forall>tr w. issued (sampleEnv\<lparr>transport := tr\<rparr>)
          (OnDocWorkerAPI relativeWorker (CopyDoc ''doc1'' False None)) w = w"
    by (simp del: issued.simps throwsBeforeRequest.simps)
  then have "issued (sampleEnv\<lparr>transport := transport sampleEnv\<rparr>)
          (OnDocWorkerAPI relativeWorker (CopyDoc ''doc1'' False None)) [] = []"
    by blast
  then have a1: "issued sampleEnv (OnDocWorkerAPI relativeWorker (CopyDoc ''doc1'' False None)) [] = []"
    by (simp only: transport_same)
  have f2: "throwsBeforeRequest sampleEnv
      (OnDocWorkerAPI sampleWorker (Upload (UploadString ''a,b'') (Some ''t.csv'')))"
    by (simp add: sampleEnv_def FormData_append_def)
  from one_request_per_call
    [of sampleEnv "OnDocWorkerAPI sampleWorker (Upload (UploadString ''a,b'') (Some ''t.csv''))"] f2
  have "\<forall>tr w. issued (sampleEnv\<lparr>transport := tr\<rparr>)
          (OnDocWorkerAPI sampleWorker (Upload (UploadString ''a,b'') (Some ''t.csv''))) w = w"
    by (simp del: issued.simps throwsBeforeRequest.simps)
  then have "issued (sampleEnv\<lparr>transport := transport sampleEnv\<rparr>)
          (OnDocWorkerAPI sampleWorker (Upload (UploadString ''a,b'') (Some ''t.csv''))) [] = []"
    by blast
  then have a2: "issued sampleEnv
      (OnDocWorkerAPI sampleWorker (Upload (UploadString ''a,b'') (Some ''t.csv''))) [] = []"
    by (simp only: transport_same)
  have h: "URL_href sampleEnv (url sampleWorker @ ''/copy?doc='' @ ''doc1'') [(''template'', ''1'')] =
      Some ''http://worker/copy?doc=doc1&template=1''"
    by (simp add: sampleEnv_def sampleHref_def sampleWorker_def)
  have b1: "issued sampleEnv (OnDocWorkerAPI sampleWorker (CopyDoc ''doc1'' True None)) [] =
       [RequestJson ''http://worker/copy?doc=doc1&template=1''
          \<lparr>http_method = Some ''POST'', body = None, init_headers = None, credentials = None\<rparr>]"
    using h
    by (simp add: copyDoc_def Let_def BaseAPI_requestJson_def snd_await snd_uploadId noInit_def
        sampleWorker_def noIOptions_def)
  have u: "UserAPIImpl_url sampleEnv sampleAPI = ''http://host''"
    using getBaseUrl_sample by (simp add: getBaseUrl_def)
  have b2: "issued sampleEnv (OnUserAPI sampleAPI (MoveDoc ''doc1'' 42)) [] =
       [Request ''http://host/api/docs/doc1/move''
          \<lparr>http_method = Some ''PATCH'', body = Some (JSON_stringify (JObj [(''workspace'', JNum 42)])),
           init_headers = None, credentials = None\<rparr>]"
    by (simp add: moveDoc_def snd_void BaseAPI_request_def noInit_def u)
  from f1 a1 f2 a2 b1 b2 show ?thesis by blast
qed

text \<open>
  C7, as stated ("the request body being the direct JSON encoding of the method's
  arguments"), fails: \<open>upload(material, filename)\<close> sends its arguments as multipart form
  data.
\<close>

theorem upload_body_is_a_form:
  "issued sampleEnv (OnDocWorkerAPI sampleWorker (Upload (UploadBlob 0) (Some ''t.csv''))) [] =
     [RequestJson ''http://worker/uploads''
        \<lparr>http_method = Some ''POST'',
         body = Some (FormDataBody [FileEntry ''upload'' (UploadBlob 0) (Some ''t.csv'')]),
         init_headers = None, credentials = None\<rparr>]
   \<and> \<not> isJsonBody (call_body (last (issued sampleEnv
          (OnDocWorkerAPI sampleWorker (Upload (UploadBlob 0) (Some ''t.csv''))) [])))"
proof -
  have "snd (upload sampleEnv sampleWorker (UploadBlob 0) (Some ''t.csv'') []) =
     [RequestJson ''http://worker/uploads''
        \<lparr>http_method = Some ''POST'',
         body = Some (FormDataBody [FileEntry ''upload'' (UploadBlob 0) (Some ''t.csv'')]),
         init_headers = None, credentials = None\<rparr>]"
    by (simp add: upload_def FormData_append_def sampleEnv_def BaseAPI_defs snd_await snd_uploadId
        noInit_def sampleWorker_def noIOptions_def)
  then show ?thesis by simp
qed

end
